theory Spec2Isabelle
  imports Complex_Main "HOL-Library.AList"
begin

section \<open>Python values and errors\<close>

text \<open>
  A Python \<^verbatim>\<open>float\<close> is a finite number or one of the three non-finite values; negative
  zero is not told apart from zero. The finite values are not restricted to the ones a
  double can hold: which of them an operation returns is the business of the float
  environment below.
\<close>

datatype pyfloat =
    Finite real
  | PosInf
  | NegInf
  | NaN

text \<open>
  The pipeline passes around what \<^verbatim>\<open>json.loads\<close> and \<^verbatim>\<open>r.json()\<close> return: untyped
  values. \<^verbatim>\<open>json.loads\<close> also accepts the literals \<^verbatim>\<open>NaN\<close>, \<^verbatim>\<open>Infinity\<close> and
  \<^verbatim>\<open>-Infinity\<close>. A dictionary is an association list in insertion order.
\<close>

datatype pyval =
    PNone
  | PBool bool
  | PInt int
  | PFloat pyfloat
  | PStr string
  | PList "pyval list"
  | PDict "(string \<times> pyval) list"

type_synonym pydict = "(string \<times> pyval) list"

datatype error =
    AttributeError
  | TypeError
  | KeyError
  | ValueError
  | OverflowError
  | LLMError
  | RequestException
  | HTTPError nat
  | JSONDecodeError
  | IndexError

text \<open>Sequencing of calls that may raise: the first error wins.\<close>

definition bnd :: "error + 'a \<Rightarrow> ('a \<Rightarrow> error + 'b) \<Rightarrow> error + 'b" where
  "bnd m f = (case m of Inl e \<Rightarrow> Inl e | Inr x \<Rightarrow> f x)"

text \<open>
  Truth value of a Python object, as \<^verbatim>\<open>if x\<close>, \<^verbatim>\<open>not x\<close> and \<^verbatim>\<open>x or y\<close> test it. Of the
  floats only zero is false: \<^verbatim>\<open>nan\<close> and the infinities are true.
\<close>

fun truthy :: "pyval \<Rightarrow> bool" where
  "truthy PNone = False"
| "truthy (PBool b) = b"
| "truthy (PInt i) = (i \<noteq> 0)"
| "truthy (PFloat f) = (f \<noteq> Finite 0)"
| "truthy (PStr s) = (s \<noteq> [])"
| "truthy (PList xs) = (xs \<noteq> [])"
| "truthy (PDict kvs) = (kvs \<noteq> [])"

text \<open>\<^verbatim>\<open>x or y\<close>\<close>

definition py_or :: "pyval \<Rightarrow> pyval \<Rightarrow> pyval" where
  "py_or x y = (if truthy x then x else y)"

text \<open>\<^verbatim>\<open>d.get(k)\<close> on a dictionary: \<^verbatim>\<open>None\<close> when the key is missing.\<close>

definition dget :: "pydict \<Rightarrow> string \<Rightarrow> pyval" where
  "dget d k = (case map_of d k of None \<Rightarrow> PNone | Some v \<Rightarrow> v)"

text \<open>\<^verbatim>\<open>d.get(k, dflt)\<close>\<close>

definition dget_default :: "pydict \<Rightarrow> string \<Rightarrow> pyval \<Rightarrow> pyval" where
  "dget_default d k dflt = (case map_of d k of None \<Rightarrow> dflt | Some v \<Rightarrow> v)"

text \<open>\<^verbatim>\<open>x.get(k)\<close> on any object: only a dictionary has the method.\<close>

definition pget :: "pyval \<Rightarrow> string \<Rightarrow> error + pyval" where
  "pget x k = (case x of PDict d \<Rightarrow> Inr (dget d k) | _ \<Rightarrow> Inl AttributeError)"

definition pget_default :: "pyval \<Rightarrow> string \<Rightarrow> pyval \<Rightarrow> error + pyval" where
  "pget_default x k dflt =
     (case x of PDict d \<Rightarrow> Inr (dget_default d k dflt) | _ \<Rightarrow> Inl AttributeError)"

text \<open>
  \<^verbatim>\<open>isinstance(x, (int, float))\<close> and the number read: \<^verbatim>\<open>bool\<close> is a subclass of
  \<^verbatim>\<open>int\<close>, so \<^verbatim>\<open>True\<close> and \<^verbatim>\<open>False\<close> pass the test as the integers 1 and 0.
\<close>

datatype pynum =
    NInt int
  | NFloat pyfloat

fun as_number :: "pyval \<Rightarrow> pynum option" where
  "as_number (PBool b) = Some (NInt (if b then 1 else 0))"
| "as_number (PInt i) = Some (NInt i)"
| "as_number (PFloat f) = Some (NFloat f)"
| "as_number _ = None"

definition is_int_or_float :: "pyval \<Rightarrow> bool" where
  "is_int_or_float v = (as_number v \<noteq> None)"

section \<open>Floating-point arithmetic\<close>

text \<open>
  What the machine and the C library answer is a parameter of the model, the float
  environment: \<open>rnd\<close> maps the exact result of an arithmetic operation to the double
  the operation returns, \<open>deg2rad\<close> is the constant \<^verbatim>\<open>math.radians\<close> multiplies by, and
  \<open>fsin\<close>, \<open>fcos\<close>, \<open>fpow2\<close>, \<open>fsqrt\<close> and \<open>fatan2\<close> are the library's \<^verbatim>\<open>sin\<close>, \<^verbatim>\<open>cos\<close>,
  \<^verbatim>\<open>pow(x, 2.0)\<close>, \<^verbatim>\<open>sqrt\<close> and \<^verbatim>\<open>atan2\<close>. What Python itself decides (which arguments
  raise, how \<^verbatim>\<open>nan\<close> and the infinities propagate, when a result overflows) is written
  out in the definitions.
\<close>

record float_env =
  rnd :: "real \<Rightarrow> real"
  deg2rad :: real
  fsin :: "real \<Rightarrow> real"
  fcos :: "real \<Rightarrow> real"
  fpow2 :: "real \<Rightarrow> real"
  fsqrt :: "real \<Rightarrow> real"
  fatan2 :: "pyfloat \<Rightarrow> pyfloat \<Rightarrow> pyfloat"

text \<open>A rounded result of magnitude \<open>2 ^ 1024\<close> or more is an infinity.\<close>

definition overflow :: "real \<Rightarrow> pyfloat" where
  "overflow r =
     (if 2 ^ 1024 \<le> r then PosInf else if r \<le> - (2 ^ 1024) then NegInf else Finite r)"

text \<open>
  The conversion of an \<^verbatim>\<open>int\<close> to a \<^verbatim>\<open>float\<close> raises \<^verbatim>\<open>OverflowError\<close> when the integer
  rounds to \<open>2 ^ 1024\<close> or beyond.
\<close>

definition float_of_int :: "float_env \<Rightarrow> int \<Rightarrow> error + pyfloat" where
  "float_of_int fp i =
     (if 2 ^ 1024 - 2 ^ 970 \<le> \<bar>i\<bar> then Inl OverflowError
      else Inr (Finite (rnd fp (of_int i))))"

definition to_float :: "float_env \<Rightarrow> pynum \<Rightarrow> error + pyfloat" where
  "to_float fp n = (case n of NInt i \<Rightarrow> float_of_int fp i | NFloat f \<Rightarrow> Inr f)"

fun fl_neg :: "pyfloat \<Rightarrow> pyfloat" where
  "fl_neg (Finite x) = Finite (- x)"
| "fl_neg PosInf = NegInf"
| "fl_neg NegInf = PosInf"
| "fl_neg NaN = NaN"

text \<open>\<^verbatim>\<open>x + y\<close>, \<^verbatim>\<open>x - y\<close> and \<^verbatim>\<open>x * y\<close> on floats; none of them raises.\<close>

fun fl_add :: "float_env \<Rightarrow> pyfloat \<Rightarrow> pyfloat \<Rightarrow> pyfloat" where
  "fl_add fp (Finite x) (Finite y) = overflow (rnd fp (x + y))"
| "fl_add fp NaN y = NaN"
| "fl_add fp x NaN = NaN"
| "fl_add fp PosInf NegInf = NaN"
| "fl_add fp NegInf PosInf = NaN"
| "fl_add fp PosInf y = PosInf"
| "fl_add fp NegInf y = NegInf"
| "fl_add fp (Finite x) y = y"

fun fl_sub :: "float_env \<Rightarrow> pyfloat \<Rightarrow> pyfloat \<Rightarrow> pyfloat" where
  "fl_sub fp (Finite x) (Finite y) = overflow (rnd fp (x - y))"
| "fl_sub fp x y = fl_add fp x (fl_neg y)"

definition inf_times :: "bool \<Rightarrow> real \<Rightarrow> pyfloat" where
  "inf_times positive y =
     (if y = 0 then NaN else if (0 < y) = positive then PosInf else NegInf)"

fun fl_mul :: "float_env \<Rightarrow> pyfloat \<Rightarrow> pyfloat \<Rightarrow> pyfloat" where
  "fl_mul fp (Finite x) (Finite y) = overflow (rnd fp (x * y))"
| "fl_mul fp NaN y = NaN"
| "fl_mul fp x NaN = NaN"
| "fl_mul fp PosInf (Finite y) = inf_times True y"
| "fl_mul fp NegInf (Finite y) = inf_times False y"
| "fl_mul fp (Finite x) PosInf = inf_times True x"
| "fl_mul fp (Finite x) NegInf = inf_times False x"
| "fl_mul fp PosInf PosInf = PosInf"
| "fl_mul fp NegInf NegInf = PosInf"
| "fl_mul fp PosInf NegInf = NegInf"
| "fl_mul fp NegInf PosInf = NegInf"

text \<open>\<^verbatim>\<open>x / 2\<close>\<close>

fun fl_half :: "float_env \<Rightarrow> pyfloat \<Rightarrow> pyfloat" where
  "fl_half fp (Finite x) = Finite (rnd fp (x / 2))"
| "fl_half fp x = x"

text \<open>
  \<^verbatim>\<open>math.sin\<close> and \<^verbatim>\<open>math.cos\<close> raise \<^verbatim>\<open>ValueError\<close> on an infinity and return \<^verbatim>\<open>nan\<close>
  on \<^verbatim>\<open>nan\<close>.
\<close>

definition py_sin :: "float_env \<Rightarrow> pyfloat \<Rightarrow> error + pyfloat" where
  "py_sin fp x =
     (case x of Finite r \<Rightarrow> Inr (Finite (fsin fp r)) | NaN \<Rightarrow> Inr NaN | _ \<Rightarrow> Inl ValueError)"

definition py_cos :: "float_env \<Rightarrow> pyfloat \<Rightarrow> error + pyfloat" where
  "py_cos fp x =
     (case x of Finite r \<Rightarrow> Inr (Finite (fcos fp r)) | NaN \<Rightarrow> Inr NaN | _ \<Rightarrow> Inl ValueError)"

text \<open>
  \<^verbatim>\<open>x ** 2\<close> for a float. Its argument here is a sine, so the square cannot overflow.
\<close>

definition py_pow2 :: "float_env \<Rightarrow> pyfloat \<Rightarrow> pyfloat" where
  "py_pow2 fp x = (case x of Finite r \<Rightarrow> Finite (fpow2 fp r) | NaN \<Rightarrow> NaN | _ \<Rightarrow> PosInf)"

text \<open>\<^verbatim>\<open>math.sqrt\<close> raises \<^verbatim>\<open>ValueError\<close> on a negative argument.\<close>

definition py_sqrt :: "float_env \<Rightarrow> pyfloat \<Rightarrow> error + pyfloat" where
  "py_sqrt fp x =
     (case x of
        Finite r \<Rightarrow> (if r < 0 then Inl ValueError else Inr (Finite (fsqrt fp r)))
      | NaN \<Rightarrow> Inr NaN
      | PosInf \<Rightarrow> Inr PosInf
      | NegInf \<Rightarrow> Inl ValueError)"

text \<open>\<^verbatim>\<open>math.atan2\<close> never raises; it returns \<^verbatim>\<open>nan\<close> when an argument is \<^verbatim>\<open>nan\<close>.\<close>

definition py_atan2 :: "float_env \<Rightarrow> pyfloat \<Rightarrow> pyfloat \<Rightarrow> pyfloat" where
  "py_atan2 fp y x = (if y = NaN \<or> x = NaN then NaN else fatan2 fp y x)"

text \<open>
  \<^verbatim>\<open>round(x, 3)\<close>: the nearest multiple of 1/1000, a tie going to the even one, as a
  double; a non-finite \<open>x\<close> is returned as it is.
\<close>

definition round_half_even :: "real \<Rightarrow> int" where
  "round_half_even x =
     (let f = \<lfloor>x\<rfloor>; d = x - of_int f
      in if d < 1 / 2 then f else if 1 / 2 < d then f + 1 else if even f then f else f + 1)"

fun py_round3 :: "float_env \<Rightarrow> pyfloat \<Rightarrow> pyfloat" where
  "py_round3 fp (Finite x) = Finite (rnd fp (of_int (round_half_even (x * 1000)) / 1000))"
| "py_round3 fp x = x"

text \<open>
  \<^verbatim>\<open>x - y\<close> on numbers: two integers subtract exactly; otherwise the integer operand is
  converted and the floats subtract.
\<close>

definition py_sub :: "float_env \<Rightarrow> pynum \<Rightarrow> pynum \<Rightarrow> error + pynum" where
  "py_sub fp x y =
     (case (x, y) of
        (NInt i, NInt j) \<Rightarrow> Inr (NInt (i - j))
      | _ \<Rightarrow> bnd (to_float fp x) (\<lambda>a. bnd (to_float fp y) (\<lambda>b. Inr (NFloat (fl_sub fp a b)))))"

text \<open>\<^verbatim>\<open>math.radians\<close> converts its argument to a float and multiplies.\<close>

definition radians :: "float_env \<Rightarrow> pynum \<Rightarrow> error + pyfloat" where
  "radians fp x = bnd (to_float fp x) (\<lambda>a. Inr (fl_mul fp a (Finite (deg2rad fp))))"

section \<open>Distance helpers\<close>

text \<open>The user context built by \<^verbatim>\<open>create_context_from_location\<close>, with its fixed keys.\<close>

record user_context =
  latitude :: pyval
  longitude :: pyval
  ll :: string
  timezone :: pyval
  current_time :: string
  text_location :: pyval
  source :: string
  captured_at :: pyval

text \<open>
  The value of \<^verbatim>\<open>a\<close> in \<^verbatim>\<open>_haversine_km\<close>, its operations in the order Python
  evaluates them.
\<close>

definition haversine_a :: "float_env \<Rightarrow> pynum \<Rightarrow> pynum \<Rightarrow> pynum \<Rightarrow> pynum \<Rightarrow> error + pyfloat" where
  "haversine_a fp lat1 lon1 lat2 lon2 =
     bnd (py_sub fp lat2 lat1) (\<lambda>d1.
     bnd (radians fp d1) (\<lambda>dlat.
     bnd (py_sub fp lon2 lon1) (\<lambda>d2.
     bnd (radians fp d2) (\<lambda>dlon.
     bnd (py_sin fp (fl_half fp dlat)) (\<lambda>s1.
     bnd (radians fp lat1) (\<lambda>r1.
     bnd (py_cos fp r1) (\<lambda>c1.
     bnd (radians fp lat2) (\<lambda>r2.
     bnd (py_cos fp r2) (\<lambda>c2.
     bnd (py_sin fp (fl_half fp dlon)) (\<lambda>s2.
       Inr (fl_add fp (py_pow2 fp s1)
              (fl_mul fp (fl_mul fp c1 c2) (py_pow2 fp s2)))))))))))))"

text \<open>\<^verbatim>\<open>_haversine_km\<close>: nothing in it clamps \<^verbatim>\<open>a\<close> or catches an exception.\<close>

definition haversine_km :: "float_env \<Rightarrow> pynum \<Rightarrow> pynum \<Rightarrow> pynum \<Rightarrow> pynum \<Rightarrow> error + pyfloat" where
  "haversine_km fp lat1 lon1 lat2 lon2 =
     bnd (haversine_a fp lat1 lon1 lat2 lon2) (\<lambda>a.
     bnd (py_sqrt fp a) (\<lambda>sa.
     bnd (py_sqrt fp (fl_sub fp (Finite 1) a)) (\<lambda>sb.
       Inr (py_round3 fp
              (fl_mul fp (Finite 6371) (fl_mul fp (Finite 2) (py_atan2 fp sa sb)))))))"

text \<open>
  \<^verbatim>\<open>_add_distance\<close>: \<^verbatim>\<open>None\<close> unless all four coordinates are \<^verbatim>\<open>int\<close> or \<^verbatim>\<open>float\<close>.
  The result is \<^verbatim>\<open>Optional[float]\<close>; raising is the \<open>Inl\<close> branch.
\<close>

definition add_distance ::
  "float_env \<Rightarrow> user_context \<Rightarrow> pyval \<Rightarrow> pyval \<Rightarrow> error + pyfloat option" where
  "add_distance fp ctx lat lon =
     (let clat = latitude ctx; clon = longitude ctx
      in case (as_number clat, as_number clon, as_number lat, as_number lon) of
           (Some a, Some b, Some c, Some d) \<Rightarrow>
             bnd (haversine_km fp a b c d) (\<lambda>r. Inr (Some r))
         | _ \<Rightarrow> Inr None)"

section \<open>Strings\<close>

text \<open>
  A \<^verbatim>\<open>str\<close> is a list of characters. \<^verbatim>\<open>str.strip()\<close> removes the characters for which
  \<^verbatim>\<open>str.isspace\<close> holds; among the code points below 256 these are 9 to 13, 28 to 32,
  133 and 160.
\<close>

definition is_space :: "char \<Rightarrow> bool" where
  "is_space c =
     (let n = (of_char c :: nat)
      in (9 \<le> n \<and> n \<le> 13) \<or> (28 \<le> n \<and> n \<le> 32) \<or> n = 133 \<or> n = 160)"

definition strip :: "string \<Rightarrow> string" where
  "strip s = rev (dropWhile is_space (rev (dropWhile is_space s)))"

text \<open>\<^verbatim>\<open>s.split(sep)\<close> for a one-character separator: never an empty list.\<close>

fun split :: "char \<Rightarrow> string \<Rightarrow> string list" where
  "split sep [] = [[]]"
| "split sep (c # cs) =
     (if c = sep then [] # split sep cs
      else (case split sep cs of [] \<Rightarrow> [[c]] | p # ps \<Rightarrow> (c # p) # ps))"

text \<open>
  \<^verbatim>\<open>s.replace(old, "")\<close>: the occurrences of \<open>old\<close> are found from the left, without
  overlap, and removed in one pass; the result is not scanned again.
\<close>

fun remove_all :: "string \<Rightarrow> string \<Rightarrow> string" where
  "remove_all [] s = s"
| "remove_all (x # xs) [] = []"
| "remove_all (x # xs) (c # cs) =
     (if take (Suc (length xs)) (c # cs) = x # xs
      then remove_all (x # xs) (drop (length xs) cs)
      else c # remove_all (x # xs) cs)"

text \<open>\<^verbatim>\<open>sep.join(parts)\<close>\<close>

fun join :: "string \<Rightarrow> string list \<Rightarrow> string" where
  "join sep [] = []"
| "join sep [p] = p"
| "join sep (p # q # ps) = p @ sep @ join sep (q # ps)"

section \<open>Web-local search: the location ladder\<close>

definition simplify_location :: "pyval \<Rightarrow> pyval" where
  "simplify_location loc =
     (case loc of
        PStr s \<Rightarrow>
          if s = [] then loc
          else
            (let parts = filter (\<lambda>p. p \<noteq> []) (map strip (split CHR '','' s))
             in if parts = [] then loc
                else
                  (let cleaned = map (\<lambda>p. strip (remove_all ''Municipal Corporation'' p)) parts;
                       cleaned = filter (\<lambda>c. c \<noteq> []) cleaned;
                       simplified = join '', '' (take 2 cleaned)
                   in if simplified \<noteq> [] then PStr simplified else loc))
      | _ \<Rightarrow> loc)"

text \<open>
  What one HTTP request does: \<^verbatim>\<open>requests.get\<close> raises (timeout, connection error), or
  a response arrives with a status code and a body that \<^verbatim>\<open>r.json()\<close> decodes or not.
\<close>

datatype http_outcome =
    NetworkError
  | Response nat "pyval option"

text \<open>
  The \<^verbatim>\<open>try\<close> body of \<^verbatim>\<open>_attempt\<close>: status 400 raises \<^verbatim>\<open>HTTPError\<close> by hand, any other
  status from 400 to 599 raises it in \<^verbatim>\<open>raise_for_status\<close>.
\<close>

definition attempt_try :: "http_outcome \<Rightarrow> error + pyval" where
  "attempt_try h =
     (case h of
        NetworkError \<Rightarrow> Inl RequestException
      | Response st body \<Rightarrow>
          if st = 400 then Inl (HTTPError 400)
          else if 400 \<le> st \<and> st < 600 then Inl (HTTPError st)
          else (case body of None \<Rightarrow> Inl JSONDecodeError | Some v \<Rightarrow> Inr v))"

text \<open>
  \<^verbatim>\<open>_attempt\<close> with its handlers: a 400 and any other failure are logged with different
  messages, and both return \<^verbatim>\<open>None\<close>.
\<close>

definition attempt :: "(pydict \<Rightarrow> http_outcome) \<Rightarrow> pydict \<Rightarrow> pyval option" where
  "attempt serp p =
     (case attempt_try (serp p) of
        Inr v \<Rightarrow> Some v
      | Inl (HTTPError st) \<Rightarrow> (if st = 400 then None else None)
      | Inl _ \<Rightarrow> None)"

text \<open>\<^verbatim>\<open>if payload: return payload\<close>\<close>

definition accepted :: "pyval option \<Rightarrow> pyval option" where
  "accepted payload = (case payload of Some v \<Rightarrow> (if truthy v then Some v else None) | None \<Rightarrow> None)"

text \<open>\<^verbatim>\<open>loc.split(",")[0]\<close>\<close>

definition first_segment :: "string \<Rightarrow> string" where
  "first_segment s = (case split CHR '','' s of [] \<Rightarrow> [] | p # ps \<Rightarrow> p)"

text \<open>
  \<^verbatim>\<open>fetch_local_results\<close>, with the requests it sent (tag and parameters, in order) beside
  its result. The three stages are the three blocks of the source.
\<close>

type_synonym call_log = "(string \<times> pydict) list"

definition no_location_stage ::
  "(pydict \<Rightarrow> http_outcome) \<Rightarrow> pydict \<Rightarrow> call_log \<Rightarrow> call_log \<times> (error + pyval)" where
  "no_location_stage serp base_params calls =
     (if truthy (dget base_params ''location'') then
        (let p3 = AList.delete ''location'' base_params;
             calls' = calls @ [(''no_location'', p3)]
         in case accepted (attempt serp p3) of
              Some v \<Rightarrow> (calls', Inr v)
            | None \<Rightarrow> (calls', Inr (PDict [])))
      else (calls, Inr (PDict [])))"

definition aggressive_stage ::
  "(pydict \<Rightarrow> http_outcome) \<Rightarrow> pydict \<Rightarrow> call_log \<Rightarrow> call_log \<times> (error + pyval)" where
  "aggressive_stage serp base_params calls =
     (if truthy (dget base_params ''location'') then
        (case dget base_params ''location'' of
           PStr loc \<Rightarrow>
             (let aggressive = strip (first_segment loc)
              in if aggressive \<noteq> [] \<and> aggressive \<noteq> loc then
                   (let p2 = AList.update ''location'' (PStr aggressive) base_params;
                        calls' = calls @ [(''aggressive_location'', p2)]
                    in case accepted (attempt serp p2) of
                         Some v \<Rightarrow> (calls', Inr v)
                       | None \<Rightarrow> no_location_stage serp base_params calls')
                 else no_location_stage serp base_params calls)
         | _ \<Rightarrow> (calls, Inl AttributeError))
      else no_location_stage serp base_params calls)"

definition fetch_local_results ::
  "(pydict \<Rightarrow> http_outcome) \<Rightarrow> pydict \<Rightarrow> call_log \<times> (error + pyval)" where
  "fetch_local_results serp params =
     (let base_params =
            (if truthy (dget params ''location'') then
               (let pre = dget params ''location'';
                    simp = simplify_location pre
                in if simp \<noteq> pre then AList.update ''location'' simp params else params)
             else params);
          calls = [(''initial'', base_params)]
      in case accepted (attempt serp base_params) of
           Some v \<Rightarrow> (calls, Inr v)
         | None \<Rightarrow> aggressive_stage serp base_params calls)"

section \<open>Query planner\<close>

text \<open>
  The chat-completion call is the planner's only contact with the language model. Its
  outcome is a parameter: the call raises, or a reply arrives whose \<^verbatim>\<open>content\<close> is
  \<^verbatim>\<open>None\<close>, a text that \<^verbatim>\<open>json.loads\<close> rejects (the text and the decoder's message), or a
  text together with the value \<^verbatim>\<open>json.loads\<close> returns for it.
\<close>

datatype llm_content =
    NoContent
  | Unparsable string string
  | Parsed string pyval

datatype llm_outcome =
    CallFailed string
  | Reply llm_content

definition json_loads :: "llm_content \<Rightarrow> error + pyval" where
  "json_loads content =
     (case content of
        NoContent \<Rightarrow> Inl TypeError
      | Unparsable raw msg \<Rightarrow> Inl JSONDecodeError
      | Parsed raw v \<Rightarrow> Inr v)"

text \<open>
  \<^verbatim>\<open>x > n\<close> and \<^verbatim>\<open>x <= n\<close> for a float \<open>x\<close> and an integer \<open>n\<close>: both are false when
  \<open>x\<close> is \<^verbatim>\<open>nan\<close>.
\<close>

fun fl_gt :: "pyfloat \<Rightarrow> int \<Rightarrow> bool" where
  "fl_gt (Finite r) n = (of_int n < r)"
| "fl_gt PosInf n = True"
| "fl_gt NegInf n = False"
| "fl_gt NaN n = False"

fun fl_le :: "pyfloat \<Rightarrow> int \<Rightarrow> bool" where
  "fl_le (Finite r) n = (r \<le> of_int n)"
| "fl_le PosInf n = False"
| "fl_le NegInf n = True"
| "fl_le NaN n = False"

text \<open>\<^verbatim>\<open>x > n\<close> for any object: only numbers compare with an integer.\<close>

definition py_gt :: "pyval \<Rightarrow> int \<Rightarrow> error + bool" where
  "py_gt v n =
     (case as_number v of
        Some (NInt i) \<Rightarrow> Inr (n < i)
      | Some (NFloat f) \<Rightarrow> Inr (fl_gt f n)
      | None \<Rightarrow> Inl TypeError)"

text \<open>Whether \<^verbatim>\<open>x <= n\<close> holds: the value is a number and at most \<open>n\<close>.\<close>

definition at_most :: "pyval \<Rightarrow> int \<Rightarrow> bool" where
  "at_most v n =
     (case as_number v of
        Some (NInt i) \<Rightarrow> i \<le> n
      | Some (NFloat f) \<Rightarrow> fl_le f n
      | None \<Rightarrow> False)"

definition fs_default_params :: "string \<Rightarrow> user_context \<Rightarrow> pydict" where
  "fs_default_params user_prompt ctx =
     [(''ll'', PStr (ll ctx)),
      (''near'', PNone),
      (''radius'', PInt 5000),
      (''query'', PStr (if user_prompt \<noteq> [] then user_prompt else ''coffee'')),
      (''categories'', PNone),
      (''chains'', PNone),
      (''open_now'', PNone),
      (''open_at'', PNone),
      (''min_price'', PNone),
      (''max_price'', PNone),
      (''sort'', PStr ''RELEVANCE''),
      (''limit'', PInt 5),
      (''fields'', PNone)]"

text \<open>The two \<^verbatim>\<open>if\<close> statements after the \<^verbatim>\<open>try\<close> of \<^verbatim>\<open>generate_fs_params\<close>.\<close>

definition fs_postprocess :: "user_context \<Rightarrow> pyval \<Rightarrow> error + pydict" where
  "fs_postprocess ctx params =
     (case params of
        PDict d \<Rightarrow>
          bnd (if \<not> truthy (dget d ''limit'') then Inr True
               else py_gt (dget_default d ''limit'' (PInt 0)) 5)
            (\<lambda>clamp.
               let d1 = (if clamp then AList.update ''limit'' (PInt 5) d else d);
                   d2 = (if \<not> truthy (dget d1 ''ll'') \<and> \<not> truthy (dget d1 ''near'')
                         then AList.update ''ll'' (PStr (ll ctx)) d1 else d1)
               in Inr d2)
      | _ \<Rightarrow> Inl AttributeError)"

text \<open>
  \<^verbatim>\<open>generate_fs_params\<close>: the call to the model stands outside the \<^verbatim>\<open>try\<close>, and the
  handler catches \<^verbatim>\<open>json.JSONDecodeError\<close> only. \<open>fs_parsed_or_default\<close> is the value of
  \<^verbatim>\<open>params\<close> after the \<^verbatim>\<open>try\<close>.
\<close>

definition fs_parsed_or_default :: "llm_content \<Rightarrow> string \<Rightarrow> user_context \<Rightarrow> error + pyval" where
  "fs_parsed_or_default content user_prompt ctx =
     (case json_loads content of
        Inl JSONDecodeError \<Rightarrow> Inr (PDict (fs_default_params user_prompt ctx))
      | Inl e \<Rightarrow> Inl e
      | Inr v \<Rightarrow> Inr v)"

definition generate_fs_params :: "llm_outcome \<Rightarrow> string \<Rightarrow> user_context \<Rightarrow> error + pydict" where
  "generate_fs_params llm user_prompt ctx =
     (case llm of
        CallFailed msg \<Rightarrow> Inl LLMError
      | Reply content \<Rightarrow>
          bnd (fs_parsed_or_default content user_prompt ctx) (fs_postprocess ctx))"

definition serp_default_params :: "string \<Rightarrow> user_context \<Rightarrow> pydict" where
  "serp_default_params user_prompt ctx =
     [(''engine'', PStr ''google_local''),
      (''q'', PStr (if user_prompt \<noteq> [] then user_prompt else ''coffee'')),
      (''location'', py_or (text_location ctx) PNone),
      (''hl'', PStr ''en''),
      (''gl'', PStr ''in''),
      (''num'', PInt 10)]"

text \<open>\<^verbatim>\<open>d.setdefault(k, v)\<close>\<close>

definition setdefault :: "string \<Rightarrow> pyval \<Rightarrow> pydict \<Rightarrow> pydict" where
  "setdefault k v d = (case map_of d k of None \<Rightarrow> AList.update k v d | Some w \<Rightarrow> d)"

text \<open>
  The statements after the \<^verbatim>\<open>try\<close> of \<^verbatim>\<open>generate_serp_params\<close>; \<open>api_key\<close> is the
  module constant \<^verbatim>\<open>SERP_API_KEY\<close>, read from the environment. \<^verbatim>\<open>int(s)\<close> for a
  string is the parameter \<open>int_of_str\<close>, \<open>None\<close> where \<^verbatim>\<open>int\<close> raises \<^verbatim>\<open>ValueError\<close>.
\<close>

definition serp_postprocess ::
  "(string \<Rightarrow> int option) \<Rightarrow> pyval \<Rightarrow> user_context \<Rightarrow> pyval \<Rightarrow> error + pydict" where
  "serp_postprocess int_of_str api_key ctx params =
     (case params of
        PDict d \<Rightarrow>
          (let d1 = setdefault ''engine'' (PStr ''google_local'') d;
               d2 = (if \<not> truthy (dget d1 ''location'') \<and> truthy (text_location ctx)
                     then AList.update ''location'' (text_location ctx) d1 else d1);
               d3 = (case dget d2 ''num'' of
                       PStr n \<Rightarrow>
                         AList.update ''num''
                           (case int_of_str n of Some i \<Rightarrow> PInt i | None \<Rightarrow> PInt 10) d2
                     | _ \<Rightarrow> d2);
               d4 = AList.update ''hl'' (py_or (dget d3 ''hl'') (PStr ''en'')) d3;
               d5 = AList.update ''gl'' (py_or (dget d4 ''gl'') (PStr ''in'')) d4;
               d6 = AList.update ''num'' (py_or (dget d5 ''num'') (PInt 10)) d5;
               d7 = AList.update ''api_key'' api_key d6
           in Inr d7)
      | _ \<Rightarrow> Inl AttributeError)"

definition serp_parsed_or_default ::
  "llm_content \<Rightarrow> string \<Rightarrow> user_context \<Rightarrow> error + pyval" where
  "serp_parsed_or_default content user_prompt ctx =
     (case json_loads content of
        Inl JSONDecodeError \<Rightarrow> Inr (PDict (serp_default_params user_prompt ctx))
      | Inl e \<Rightarrow> Inl e
      | Inr v \<Rightarrow> Inr v)"

definition generate_serp_params ::
  "(string \<Rightarrow> int option) \<Rightarrow> pyval \<Rightarrow> llm_outcome \<Rightarrow> string \<Rightarrow> user_context \<Rightarrow>
     error + pydict" where
  "generate_serp_params int_of_str api_key llm user_prompt ctx =
     (case llm of
        CallFailed msg \<Rightarrow> Inl LLMError
      | Reply content \<Rightarrow>
          bnd (serp_parsed_or_default content user_prompt ctx)
            (serp_postprocess int_of_str api_key ctx))"

section \<open>Directory provider\<close>

text \<open>
  \<^verbatim>\<open>requests.get\<close>, \<^verbatim>\<open>raise_for_status\<close> and \<^verbatim>\<open>r.json()\<close> in a row, with no handler: what
  \<^verbatim>\<open>search_foursquare\<close> and \<^verbatim>\<open>fetch_place_details\<close> do with a request.
\<close>

definition http_json :: "http_outcome \<Rightarrow> error + pyval" where
  "http_json h =
     (case h of
        NetworkError \<Rightarrow> Inl RequestException
      | Response st body \<Rightarrow>
          if 400 \<le> st \<and> st < 600 then Inl (HTTPError st)
          else (case body of None \<Rightarrow> Inl JSONDecodeError | Some v \<Rightarrow> Inr v))"

text \<open>
  \<^verbatim>\<open>for x in v\<close>: a list gives its items, a string its characters, a dictionary its keys;
  nothing else is iterable.
\<close>

definition py_iter :: "pyval \<Rightarrow> error + pyval list" where
  "py_iter v =
     (case v of
        PList xs \<Rightarrow> Inr xs
      | PStr cs \<Rightarrow> Inr (map (\<lambda>c. PStr [c]) cs)
      | PDict kvs \<Rightarrow> Inr (map (\<lambda>kv. PStr (fst kv)) kvs)
      | _ \<Rightarrow> Inl TypeError)"

text \<open>The loop of \<^verbatim>\<open>search_foursquare\<close>: it stops at five identifiers.\<close>

fun collect_ids :: "pyval list \<Rightarrow> pyval list \<Rightarrow> error + pyval list" where
  "collect_ids [] ids = Inr ids"
| "collect_ids (p # ps) ids =
     (case pget p ''fsq_place_id'' of
        Inl e \<Rightarrow> Inl e
      | Inr fid \<Rightarrow>
          (let ids' = (if truthy fid then ids @ [fid] else ids)
           in if 5 \<le> length ids' then Inr ids' else collect_ids ps ids'))"

definition search_foursquare :: "(pydict \<Rightarrow> http_outcome) \<Rightarrow> pydict \<Rightarrow> error + pyval list" where
  "search_foursquare fsq_search params =
     (let clean = filter (\<lambda>kv. snd kv \<noteq> PNone \<and> snd kv \<noteq> PStr ''null'') params;
          clean = AList.update ''fields'' (PStr ''fsq_place_id'') clean
      in bnd (http_json (fsq_search clean)) (\<lambda>data.
         bnd (pget_default data ''results'' (PList [])) (\<lambda>results.
         bnd (py_iter results) (\<lambda>ps. collect_ids ps []))))"

definition fetch_place_details :: "(pyval \<Rightarrow> http_outcome) \<Rightarrow> pyval \<Rightarrow> error + pyval" where
  "fetch_place_details fsq_details fsq_id = http_json (fsq_details fsq_id)"

text \<open>\<^verbatim>\<open>", ".join(items)\<close> raises \<^verbatim>\<open>TypeError\<close> on an item that is not a string.\<close>

fun str_items :: "pyval list \<Rightarrow> error + string list" where
  "str_items [] = Inr []"
| "str_items (v # vs) =
     (case v of
        PStr s \<Rightarrow> (case str_items vs of Inl e \<Rightarrow> Inl e | Inr ss \<Rightarrow> Inr (s # ss))
      | _ \<Rightarrow> Inl TypeError)"

text \<open>\<^verbatim>\<open>v[0]\<close>\<close>

definition py_index0 :: "pyval \<Rightarrow> error + pyval" where
  "py_index0 v =
     (case v of
        PList xs \<Rightarrow> (case xs of [] \<Rightarrow> Inl IndexError | x # _ \<Rightarrow> Inr x)
      | PStr cs \<Rightarrow> (case cs of [] \<Rightarrow> Inl IndexError | c # _ \<Rightarrow> Inr (PStr [c]))
      | PDict kvs \<Rightarrow> Inl KeyError
      | _ \<Rightarrow> Inl TypeError)"

text \<open>\<^verbatim>\<open>[c.get("name") for c in cats if isinstance(c, dict) and c.get("name")]\<close>\<close>

fun category_names :: "pyval list \<Rightarrow> pyval list" where
  "category_names [] = []"
| "category_names (c # cs) =
     (case c of
        PDict d \<Rightarrow> (if truthy (dget d ''name'') then dget d ''name'' # category_names cs
                    else category_names cs)
      | _ \<Rightarrow> category_names cs)"

definition summarize_fs :: "pyval \<Rightarrow> error + pydict" where
  "summarize_fs detail =
     (case detail of
        PDict det \<Rightarrow>
          (case py_or (dget det ''location'') (PDict []) of
             PDict loc \<Rightarrow>
               bnd (if \<not> truthy (dget loc ''formatted_address'') then
                      (let parts = [dget loc ''address'', dget loc ''locality'', dget loc ''region'',
                                    dget loc ''postcode'', dget loc ''country'']
                       in bnd (str_items (filter truthy parts)) (\<lambda>ss.
                            Inr (py_or (PStr (join '', '' ss)) PNone)))
                    else Inr (dget loc ''formatted_address''))
                 (\<lambda>formatted.
               bnd (py_iter (py_or (dget det ''categories'') (PList []))) (\<lambda>cats.
               let cat_names = category_names cats;
                   chains = py_or (dget det ''chains'') (PList [])
               in bnd (if truthy chains then
                         bnd (py_index0 chains) (\<lambda>c0.
                           case c0 of PDict ch \<Rightarrow> Inr (dget ch ''name'') | _ \<Rightarrow> Inr PNone)
                       else Inr PNone)
                    (\<lambda>chain_name.
                       Inr [(''fsq_place_id'', dget det ''fsq_place_id''),
                            (''name'', dget det ''name''),
                            (''address'', formatted),
                            (''latitude'', dget det ''latitude''),
                            (''longitude'', dget det ''longitude''),
                            (''categories'', if cat_names \<noteq> [] then PList cat_names else PNone),
                            (''chain'', chain_name),
                            (''tel'', dget det ''tel''),
                            (''website'', dget det ''website'')])))
           | _ \<Rightarrow> Inl AttributeError)
      | _ \<Rightarrow> Inl AttributeError)"

text \<open>The value stored under \<^verbatim>\<open>distance_km\<close>.\<close>

definition distance_value :: "pyfloat option \<Rightarrow> pyval" where
  "distance_value d = (case d of None \<Rightarrow> PNone | Some f \<Rightarrow> PFloat f)"

text \<open>
  The loop of \<^verbatim>\<open>run_fs\<close> over the identifiers, one detail call each, in order. Nothing
  in the loop catches an exception.
\<close>

fun fetch_details ::
  "float_env \<Rightarrow> (pyval \<Rightarrow> http_outcome) \<Rightarrow> user_context \<Rightarrow> pyval list \<Rightarrow>
     error + pydict list" where
  "fetch_details fp fsq_details ctx [] = Inr []"
| "fetch_details fp fsq_details ctx (fid # fids) =
     (case fetch_place_details fsq_details fid of
        Inl e \<Rightarrow> Inl e
      | Inr detail \<Rightarrow>
          (case summarize_fs detail of
             Inl e \<Rightarrow> Inl e
           | Inr rec \<Rightarrow>
               (case add_distance fp ctx (dget rec ''latitude'') (dget rec ''longitude'') of
                  Inl e \<Rightarrow> Inl e
                | Inr dkm \<Rightarrow>
                    (case fetch_details fp fsq_details ctx fids of
                       Inl e \<Rightarrow> Inl e
                     | Inr rest \<Rightarrow>
                         Inr (AList.update ''distance_km'' (distance_value dkm) rec # rest)))))"

record search_result =
  sr_context :: user_context
  sr_query :: string
  sr_count :: nat
  sr_results :: "pydict list"

text \<open>\<^verbatim>\<open>run_fs\<close> as the API calls it, with \<^verbatim>\<open>save_to_file=False\<close>.\<close>

definition run_fs ::
  "float_env \<Rightarrow> llm_outcome \<Rightarrow> (pydict \<Rightarrow> http_outcome) \<Rightarrow> (pyval \<Rightarrow> http_outcome) \<Rightarrow>
     string \<Rightarrow> user_context \<Rightarrow> error + search_result" where
  "run_fs fp llm fsq_search fsq_details user_query ctx =
     bnd (generate_fs_params llm user_query ctx) (\<lambda>params.
     bnd (search_foursquare fsq_search params) (\<lambda>ids.
     bnd (fetch_details fp fsq_details ctx ids) (\<lambda>details.
       Inr \<lparr>sr_context = ctx, sr_query = user_query,
            sr_count = length details, sr_results = details\<rparr>)))"

section \<open>Review resolver\<close>

text \<open>
  \<^verbatim>\<open>str(v)\<close> and the formatting of \<open>v\<close> in an f-string: a string is itself; the text
  Python prints for any other value is the parameter \<open>str_of\<close>.
\<close>

definition py_str :: "(pyval \<Rightarrow> string) \<Rightarrow> pyval \<Rightarrow> string" where
  "py_str str_of v = (case v of PStr s \<Rightarrow> s | _ \<Rightarrow> str_of v)"

definition format_google_place_id :: "(pyval \<Rightarrow> string) \<Rightarrow> pyval \<Rightarrow> pydict" where
  "format_google_place_id str_of id_value =
     (if \<not> truthy id_value then []
      else
        (case id_value of
           PStr s \<Rightarrow> (if take 2 s = ''0x'' then [(''data_id'', PStr s)]
                       else [(''place_id'', PStr (py_str str_of id_value))])
         | _ \<Rightarrow> [(''place_id'', PStr (py_str str_of id_value))]))"

definition select_review_identifier :: "(pyval \<Rightarrow> string) \<Rightarrow> pydict \<Rightarrow> pydict" where
  "select_review_identifier str_of result =
     (let gid = dget result ''google_place_id''
      in if truthy gid then format_google_place_id str_of gid else [])"

text \<open>The loop over \<^verbatim>\<open>local_results\<close> in \<^verbatim>\<open>_resolve_data_id_via_maps\<close>.\<close>

fun first_identifier :: "pyval list \<Rightarrow> error + pyval" where
  "first_identifier [] = Inr PNone"
| "first_identifier (it # its) =
     (case it of
        PDict d \<Rightarrow>
          (if truthy (dget d ''data_id'') then Inr (dget d ''data_id'')
           else if truthy (dget d ''place_id'') then Inr (dget d ''place_id'')
           else first_identifier its)
      | _ \<Rightarrow> Inl AttributeError)"

text \<open>
  \<^verbatim>\<open>_resolve_data_id_via_maps\<close>: the request and the decoding of its body are inside the
  \<^verbatim>\<open>try\<close>; reading the decoded payload is after it.
\<close>

definition resolve_data_id_via_maps ::
  "(pyval \<Rightarrow> string) \<Rightarrow> (pydict \<Rightarrow> http_outcome) \<Rightarrow> pydict \<Rightarrow> pydict \<Rightarrow> error + pyval" where
  "resolve_data_id_via_maps str_of serp base_params result =
     (let name = py_or (dget result ''name'') (PStr []);
          address = py_or (dget result ''address'') (PStr []);
          q = strip (py_str str_of name @ '' '' @ py_str str_of address)
      in if q = [] then Inr PNone
         else
           (let params = [(''engine'', PStr ''google_maps''),
                          (''q'', PStr q),
                          (''hl'', dget_default base_params ''hl'' (PStr ''en'')),
                          (''api_key'', dget base_params ''api_key'')]
            in case http_json (serp params) of
                 Inl e \<Rightarrow> Inr PNone
               | Inr data \<Rightarrow>
                   bnd (pget data ''place_results'') (\<lambda>pr0.
                     case py_or pr0 (PDict []) of
                       PDict pr \<Rightarrow>
                         if truthy (dget pr ''data_id'') then Inr (dget pr ''data_id'')
                         else if truthy (dget pr ''place_id'') then Inr (dget pr ''place_id'')
                         else
                           bnd (pget_default data ''local_results'' (PList [])) (\<lambda>lr.
                           bnd (py_iter (py_or lr (PList []))) first_identifier)
                     | _ \<Rightarrow> Inl AttributeError)))"

text \<open>
  \<^verbatim>\<open>xs[:n]\<close>: a negative \<open>n\<close> counts from the end. Only lists and strings can be
  sliced: a number raises \<^verbatim>\<open>TypeError\<close>, and so does a dictionary (\<^verbatim>\<open>KeyError\<close> from
  Python 3.12 on).
\<close>

definition slice_to :: "'a list \<Rightarrow> int \<Rightarrow> 'a list" where
  "slice_to xs n = (if 0 \<le> n then take (nat n) xs else take (length xs - nat (- n)) xs)"

definition py_slice_to :: "pyval \<Rightarrow> int \<Rightarrow> error + pyval" where
  "py_slice_to v n =
     (case v of
        PList xs \<Rightarrow> Inr (PList (slice_to xs n))
      | PStr cs \<Rightarrow> Inr (PStr (slice_to cs n))
      | _ \<Rightarrow> Inl TypeError)"

text \<open>The dictionary built for one review.\<close>

definition review_snippet :: "pyval \<Rightarrow> error + pydict" where
  "review_snippet rv =
     (case rv of
        PDict d \<Rightarrow>
          (case py_or (dget_default d ''extracted_snippet'' (PDict [])) (PDict []) of
             PDict es \<Rightarrow>
               (case py_or (dget_default d ''user'' (PDict [])) (PDict []) of
                  PDict u \<Rightarrow>
                    Inr [(''rating'', dget d ''rating''),
                         (''date'', dget d ''date''),
                         (''iso_date'', dget d ''iso_date''),
                         (''snippet'', py_or (dget es ''original'') (dget d ''snippet'')),
                         (''user'', dget u ''name''),
                         (''source'', dget d ''source'')]
                | _ \<Rightarrow> Inl AttributeError)
           | _ \<Rightarrow> Inl AttributeError)
      | _ \<Rightarrow> Inl AttributeError)"

fun review_snippets :: "pyval list \<Rightarrow> error + pydict list" where
  "review_snippets [] = Inr []"
| "review_snippets (rv # rvs) =
     (case review_snippet rv of
        Inl e \<Rightarrow> Inl e
      | Inr r \<Rightarrow> (case review_snippets rvs of Inl e \<Rightarrow> Inl e | Inr rs \<Rightarrow> Inr (r # rs)))"

definition reviews_request :: "pydict \<Rightarrow> pydict \<Rightarrow> pydict" where
  "reviews_request base_params id_param =
     [(''engine'', PStr ''google_maps_reviews''),
      (''api_key'', dget base_params ''api_key''),
      (''hl'', dget_default base_params ''hl'' (PStr ''en''))] @ id_param"

text \<open>
  \<^verbatim>\<open>fetch_reviews\<close>. The first request has a handler that replaces the payload by
  \<^verbatim>\<open>{}\<close>; the retry's handler covers the request and the reading of \<^verbatim>\<open>reviews\<close>; the
  reading after the first request and the final loop have none.
\<close>

definition fetch_reviews ::
  "(pyval \<Rightarrow> string) \<Rightarrow> (pydict \<Rightarrow> http_outcome) \<Rightarrow> pydict \<Rightarrow> pydict \<Rightarrow> int \<Rightarrow>
     error + pydict list" where
  "fetch_reviews str_of serp base_params result max_reviews =
     (let id_param0 = select_review_identifier str_of result
      in bnd (if id_param0 = [] then
                bnd (resolve_data_id_via_maps str_of serp base_params result) (\<lambda>resolved_id.
                  if \<not> truthy resolved_id then Inr None
                  else Inr (Some (format_google_place_id str_of resolved_id)))
              else Inr (Some id_param0))
           (\<lambda>found.
              case found of
                None \<Rightarrow> Inr []
              | Some id_param \<Rightarrow>
                  (let payload =
                         (case http_json (serp (reviews_request base_params id_param)) of
                            Inl e \<Rightarrow> PDict []
                          | Inr v \<Rightarrow> v)
                   in bnd (pget_default payload ''reviews'' (PList [])) (\<lambda>r0.
                      bnd (if \<not> truthy (py_or r0 (PList [])) then
                             bnd (resolve_data_id_via_maps str_of serp base_params result)
                               (\<lambda>resolved_id.
                                  if truthy resolved_id then
                                    (case bnd (http_json (serp (reviews_request base_params
                                                 (format_google_place_id str_of resolved_id))))
                                            (\<lambda>payload2.
                                               bnd (pget_default payload2 ''reviews'' (PList []))
                                                 (\<lambda>r2. Inr (py_or r2 (PList [])))) of
                                       Inl e \<Rightarrow> Inr (PList [])
                                     | Inr reviews2 \<Rightarrow> Inr reviews2)
                                  else Inr (py_or r0 (PList [])))
                           else Inr (py_or r0 (PList [])))
                        (\<lambda>reviews.
                           bnd (py_slice_to reviews max_reviews) (\<lambda>sl.
                           bnd (py_iter sl) review_snippets))))))"

text \<open>
  The exceptions that reading a decoded payload of unexpected shape raises: a missing
  method, a value that cannot be iterated or sliced, a missing key.
\<close>

definition shape_error :: "error \<Rightarrow> bool" where
  "shape_error e = (e = AttributeError \<or> e = TypeError \<or> e = KeyError)"

section \<open>Location cache\<close>

text \<open>
  \<^verbatim>\<open>float(v)\<close>: a float is itself, an integer converts (\<^verbatim>\<open>OverflowError\<close> when it is too
  large), a string is parsed (the parser is the parameter \<open>float_of_str\<close>, \<open>None\<close> where
  \<^verbatim>\<open>float\<close> raises \<^verbatim>\<open>ValueError\<close>), anything else is a \<^verbatim>\<open>TypeError\<close>. The converted
  integer is kept exact: rounding cannot move it across the bounds it is compared with.
\<close>

definition py_float :: "(string \<Rightarrow> pyfloat option) \<Rightarrow> pyval \<Rightarrow> error + pyfloat" where
  "py_float float_of_str v =
     (case v of
        PStr s \<Rightarrow> (case float_of_str s of None \<Rightarrow> Inl ValueError | Some f \<Rightarrow> Inr f)
      | _ \<Rightarrow>
          (case as_number v of
             None \<Rightarrow> Inl TypeError
           | Some (NInt i) \<Rightarrow>
               (if 2 ^ 1024 - 2 ^ 970 \<le> \<bar>i\<bar> then Inl OverflowError
                else Inr (Finite (of_int i)))
           | Some (NFloat f) \<Rightarrow> Inr f))"

text \<open>\<^verbatim>\<open>lo <= x <= hi\<close> for a float: false for \<^verbatim>\<open>nan\<close> and the infinities.\<close>

definition fl_between :: "real \<Rightarrow> pyfloat \<Rightarrow> real \<Rightarrow> bool" where
  "fl_between lo x hi = (case x of Finite r \<Rightarrow> lo \<le> r \<and> r \<le> hi | _ \<Rightarrow> False)"

text \<open>
  \<^verbatim>\<open>validate_coordinates\<close>: its handler catches \<^verbatim>\<open>ValueError\<close> and \<^verbatim>\<open>TypeError\<close>; an
  \<^verbatim>\<open>OverflowError\<close> leaves the function.
\<close>

definition validate_coordinates ::
  "(string \<Rightarrow> pyfloat option) \<Rightarrow> pyval \<Rightarrow> pyval \<Rightarrow> error + bool" where
  "validate_coordinates float_of_str lat lon =
     (case bnd (py_float float_of_str lat) (\<lambda>lat_f.
           bnd (py_float float_of_str lon) (\<lambda>lon_f.
             Inr (fl_between (- 90) lat_f 90 \<and> fl_between (- 180) lon_f 180))) of
        Inr b \<Rightarrow> Inr b
      | Inl ValueError \<Rightarrow> Inr False
      | Inl TypeError \<Rightarrow> Inr False
      | Inl e \<Rightarrow> Inl e)"

text \<open>
  The cache file: missing, holding text that \<^verbatim>\<open>json.loads\<close> rejects, or holding a JSON
  document. \<^verbatim>\<open>json.dumps\<close> followed by \<^verbatim>\<open>json.loads\<close> gives the document back.
\<close>

datatype cache_file =
    NoFile
  | Garbage
  | Document pyval

text \<open>
  What creating the directory and writing the file do: they succeed, or one of them
  raises and leaves the file in some state (as it was when the directory cannot be
  made, emptied when the write fails after the file was opened).
\<close>

datatype write_outcome =
    Written
  | WriteFailed cache_file

text \<open>
  \<^verbatim>\<open>save_location_cache\<close> returns its flag and the file afterwards; its handler turns
  every exception into \<^verbatim>\<open>False\<close>.
\<close>

definition save_location_cache ::
  "(string \<Rightarrow> pyfloat option) \<Rightarrow> write_outcome \<Rightarrow> cache_file \<Rightarrow> pydict \<Rightarrow>
     bool \<times> cache_file" where
  "save_location_cache float_of_str write cache location_data =
     (if \<not> truthy (dget location_data ''latitude'') then (False, cache)
      else if \<not> truthy (dget location_data ''longitude'') then (False, cache)
      else
        (case validate_coordinates float_of_str
                (dget location_data ''latitude'') (dget location_data ''longitude'') of
           Inl e \<Rightarrow> (False, cache)
         | Inr valid \<Rightarrow>
             if \<not> valid then (False, cache)
             else
               (case write of
                  Written \<Rightarrow> (True, Document (PDict location_data))
                | WriteFailed left \<Rightarrow> (False, left))))"

definition get_location_cache ::
  "(string \<Rightarrow> pyfloat option) \<Rightarrow> cache_file \<Rightarrow> pyval option" where
  "get_location_cache float_of_str cache =
     (case cache of
        Document location_data \<Rightarrow>
          (case bnd (pget location_data ''latitude'') (\<lambda>lat.
                bnd (pget location_data ''longitude'') (\<lambda>lon.
                  validate_coordinates float_of_str lat lon)) of
             Inr valid \<Rightarrow> (if valid then Some location_data else None)
           | Inl e \<Rightarrow> None)
      | _ \<Rightarrow> None)"

section \<open>Ranking gateway\<close>

text \<open>
  \<^verbatim>\<open>rank_places_api\<close> with \<^verbatim>\<open>save_to_file=False\<close>. The returned dictionary is built from
  the reply alone: the parsed value is stored under \<^verbatim>\<open>data\<close> as it is.
\<close>

definition rank_places_api :: "llm_outcome \<Rightarrow> pydict" where
  "rank_places_api llm =
     (case llm of
        CallFailed msg \<Rightarrow>
          [(''success'', PBool False), (''error'', PStr msg), (''data'', PNone)]
      | Reply NoContent \<Rightarrow>
          [(''success'', PBool False),
           (''error'', PStr ''the JSON object must be str, bytes or bytearray, not NoneType''),
           (''data'', PNone)]
      | Reply (Unparsable raw msg) \<Rightarrow>
          [(''success'', PBool False),
           (''error'', PStr (''Invalid JSON response from AI: '' @ msg)),
           (''raw_response'', PStr raw)]
      | Reply (Parsed raw ranked_data) \<Rightarrow>
          [(''success'', PBool True), (''data'', ranked_data), (''raw_response'', PStr raw)])"

text \<open>
  The property the ranked list is expected to have: the \<^verbatim>\<open>rank\<close> values of
  \<^verbatim>\<open>ranked_places\<close> are the integers from 1 to the length of the list, each once.
\<close>

definition ranked_places :: "pyval \<Rightarrow> pyval list option" where
  "ranked_places ranked_data =
     (case ranked_data of
        PDict d \<Rightarrow> (case dget d ''ranked_places'' of PList places \<Rightarrow> Some places | _ \<Rightarrow> None)
      | _ \<Rightarrow> None)"

definition rank_of :: "pyval \<Rightarrow> pyval" where
  "rank_of place = (case place of PDict d \<Rightarrow> dget d ''rank'' | _ \<Rightarrow> PNone)"

definition contiguous_ranks :: "pyval list \<Rightarrow> bool" where
  "contiguous_ranks places =
     (let ranks = map rank_of places
      in distinct ranks \<and>
         list_all (\<lambda>r. case r of PInt i \<Rightarrow> 1 \<le> i \<and> i \<le> int (length places) | _ \<Rightarrow> False) ranks)"

section \<open>Example inputs\<close>

text \<open>Concrete inputs at which the functions above are evaluated below.\<close>

definition ctx0 :: user_context where
  "ctx0 = \<lparr>latitude = PFloat (Finite 28.6139), longitude = PFloat (Finite 77.209),
           ll = ''28.6139,77.209'',
           timezone = PStr ''Asia/Kolkata'', current_time = ''2025-01-01 10:00'',
           text_location = PStr ''New Delhi, Delhi'', source = ''frontend_geolocation'',
           captured_at = PNone\<rparr>"

text \<open>A reply of the model that is prose, not JSON.\<close>

definition prose_reply :: llm_outcome where
  "prose_reply = Reply (Unparsable ''Sure! Here are the parameters'' ''Expecting value'')"

text \<open>A directory search that finds two places, and two behaviours of the detail endpoint.\<close>

definition two_ids_search :: "pydict \<Rightarrow> http_outcome" where
  "two_ids_search p =
     Response 200 (Some (PDict [(''results'',
        PList [PDict [(''fsq_place_id'', PStr ''a'')], PDict [(''fsq_place_id'', PStr ''b'')]])]))"

definition first_detail_fails :: "pyval \<Rightarrow> http_outcome" where
  "first_detail_fails fid =
     (if fid = PStr ''a'' then Response 500 None
      else Response 200 (Some (PDict [(''fsq_place_id'', fid), (''name'', PStr ''Cafe'')])))"

definition every_detail_ok :: "pyval \<Rightarrow> http_outcome" where
  "every_detail_ok fid =
     Response 200 (Some (PDict [(''fsq_place_id'', fid), (''name'', PStr ''Cafe'')]))"

text \<open>A web-local record with an identifier, one without, and three review endpoints.\<close>

definition cafe_record :: pydict where
  "cafe_record = [(''google_place_id'', PStr ''0x3a''), (''name'', PStr ''Cafe'')]"

definition anonymous_record :: pydict where
  "anonymous_record = [(''google_place_id'', PNone), (''name'', PStr ''Cafe'')]"

definition serp_base :: pydict where
  "serp_base = [(''api_key'', PStr ''k''), (''hl'', PStr ''en'')]"

definition reviews_of_strings :: "pydict \<Rightarrow> http_outcome" where
  "reviews_of_strings p =
     Response 200 (Some (PDict [(''reviews'', PList [PStr ''Great coffee''])]))"

definition four_reviews :: "pydict \<Rightarrow> http_outcome" where
  "four_reviews p =
     Response 200 (Some (PDict [(''reviews'',
        PList [PDict [(''rating'', PInt 5)], PDict [(''rating'', PInt 4)],
               PDict [(''rating'', PInt 3)], PDict [(''rating'', PInt 2)]])]))"

definition always_timeout :: "pydict \<Rightarrow> http_outcome" where
  "always_timeout p = NetworkError"

text \<open>A ranking reply that is valid JSON and gives the rank 2 twice.\<close>

definition duplicate_ranks :: pyval where
  "duplicate_ranks =
     PDict [(''ranked_places'', PList [PDict [(''rank'', PInt 2)], PDict [(''rank'', PInt 2)]])]"

text \<open>
  Exact arithmetic as a float environment: nothing is rounded and the library functions
  are the mathematical ones.
\<close>

definition atan2 :: "real \<Rightarrow> real \<Rightarrow> real" where
  "atan2 y x =
     (if 0 < x then arctan (y / x)
      else if x < 0 then (if 0 \<le> y then arctan (y / x) + pi else arctan (y / x) - pi)
      else if 0 < y then pi / 2
      else if y < 0 then - (pi / 2)
      else 0)"

definition exact_fp :: float_env where
  "exact_fp =
     \<lparr>rnd = (\<lambda>x. x), deg2rad = pi / 180, fsin = sin, fcos = cos, fpow2 = (\<lambda>x. x\<^sup>2),
      fsqrt = sqrt,
      fatan2 = (\<lambda>y x. case (y, x) of (Finite a, Finite b) \<Rightarrow> Finite (atan2 a b) | _ \<Rightarrow> NaN)\<rparr>"

text \<open>
  The doubles that CPython 3.11 on x86-64 Linux (IEEE 754 binary64, glibc) returns for
  the operations of \<^verbatim>\<open>_haversine_km(2.5, 0.0, -2.5, 180.0)\<close> and of the same call with
  the two points exchanged, as exact fractions: \<^verbatim>\<open>math.pi / 180\<close>, the radians of 5,
  180 and 2.5 degrees, the sine and cosine of the half angles, their squares and
  product, and the sum \<^verbatim>\<open>a\<close>, which is \<^verbatim>\<open>1.0000000000000002\<close>.
\<close>

definition deg2rad_double :: real where
  "deg2rad_double = 5030569068109113 / 288230376151711744"

definition rad5_double :: real where
  "rad5_double = 6288211335136391 / 72057594037927936"

definition rad180_double :: real where
  "rad180_double = 884279719003555 / 281474976710656"

definition rad2_5_double :: real where
  "rad2_5_double = 6288211335136391 / 144115188075855872"

definition sin2_5_double :: real where
  "sin2_5_double = 6286216213909009 / 144115188075855872"

definition sin2_5_squared_double :: real where
  "sin2_5_squared_double = 4387214401548047 / 2305843009213693952"

definition cos2_5_double :: real where
  "cos2_5_double = 8998626396882423 / 9007199254740992"

definition cos2_5_squared_double :: real where
  "cos2_5_squared_double = 4495030849242473 / 4503599627370496"

definition a_double :: real where
  "a_double = 4503599627370497 / 4503599627370496"

text \<open>
  The float environment of that call: the operations it performs answer with the
  doubles above; every other operation of the call is exact, and so is the environment
  elsewhere.
\<close>

definition observed_rnd :: "real \<Rightarrow> real" where
  "observed_rnd x =
     (if \<bar>x\<bar> = 5 * deg2rad_double then sgn x * rad5_double
      else if \<bar>x\<bar> = 180 * deg2rad_double then sgn x * rad180_double
      else if \<bar>x\<bar> = 5 / 2 * deg2rad_double then sgn x * rad2_5_double
      else if x = cos2_5_double * cos2_5_double then cos2_5_squared_double
      else if x = sin2_5_squared_double + cos2_5_squared_double then a_double
      else x)"

definition observed_sin :: "real \<Rightarrow> real" where
  "observed_sin x =
     (if \<bar>x\<bar> = rad2_5_double then sgn x * sin2_5_double
      else if \<bar>x\<bar> = rad180_double / 2 then sgn x
      else sin x)"

definition observed_cos :: "real \<Rightarrow> real" where
  "observed_cos x = (if \<bar>x\<bar> = rad2_5_double then cos2_5_double else cos x)"

definition observed_pow2 :: "real \<Rightarrow> real" where
  "observed_pow2 x = (if \<bar>x\<bar> = sin2_5_double then sin2_5_squared_double else x\<^sup>2)"

definition observed_fp :: float_env where
  "observed_fp =
     \<lparr>rnd = observed_rnd, deg2rad = deg2rad_double, fsin = observed_sin, fcos = observed_cos,
      fpow2 = observed_pow2, fsqrt = sqrt, fatan2 = fatan2 exact_fp\<rparr>"

text \<open>A user on latitude 2.5, longitude 0.\<close>

definition ctx_gulf :: user_context where
  "ctx_gulf = \<lparr>latitude = PFloat (Finite (5 / 2)), longitude = PFloat (Finite 0), ll = ''2.5,0.0'',
           timezone = PStr ''UTC'', current_time = ''2025-01-01 10:00'',
           text_location = PNone, source = ''frontend_geolocation'', captured_at = PNone\<rparr>"

text \<open>
  A resolver endpoint that finds an identifier while the review endpoint answers 500.
\<close>

definition maps_only :: "pydict \<Rightarrow> http_outcome" where
  "maps_only p =
     (if dget p ''engine'' = PStr ''google_maps''
      then Response 200 (Some (PDict [(''place_results'', PDict [(''data_id'', PStr ''0x9b'')])]))
      else Response 500 None)"

text \<open>A reply of the model whose limit is not a number.\<close>

definition nan_limit_text :: string where
  "nan_limit_text = ''{\"limit\": NaN}''"

section \<open>Properties of the distance helpers\<close>

lemma bnd_Inr: "bnd m f = Inr y \<Longrightarrow> \<exists>x. m = Inr x \<and> f x = Inr y"
  by (cases m) (simp_all add: bnd_def)

text \<open>
  In every float environment \<^verbatim>\<open>_add_distance\<close> returns \<^verbatim>\<open>None\<close> exactly when one of the
  four coordinates is not an \<^verbatim>\<open>int\<close> or \<^verbatim>\<open>float\<close>: it puts no number in the place of a
  missing coordinate, and it raises only on coordinates that are numbers.
\<close>

lemma add_distance_none_iff:
  "add_distance fp ctx lat lon = Inr None \<longleftrightarrow>
     \<not> (is_int_or_float (latitude ctx) \<and> is_int_or_float (longitude ctx) \<and>
        is_int_or_float lat \<and> is_int_or_float lon)"
  by (auto simp: add_distance_def is_int_or_float_def bnd_def split: option.splits sum.splits)

lemmas float_defs = add_distance_def haversine_km_def haversine_a_def py_sub_def radians_def
  to_float_def float_of_int_def py_sin_def py_cos_def py_pow2_def py_sqrt_def py_atan2_def
  overflow_def bnd_def

lemmas observed_defs = observed_fp_def observed_rnd_def observed_sin_def observed_cos_def
  observed_pow2_def deg2rad_double_def rad5_double_def rad180_double_def rad2_5_double_def
  sin2_5_double_def sin2_5_squared_double_def cos2_5_double_def cos2_5_squared_double_def
  a_double_def

text \<open>
  Claim C4 (the code departs from it). \<^verbatim>\<open>_add_distance\<close> raises on coordinates that
  pass its \<^verbatim>\<open>isinstance\<close> test, and can return a value that is not a non-negative
  number. For the user at (2.5, 0) and the place at (-2.5, 180), with the doubles the
  machine computes, \<^verbatim>\<open>a\<close> exceeds 1 and \<^verbatim>\<open>math.sqrt(1 - a)\<close> raises \<^verbatim>\<open>ValueError\<close>; a
  place latitude \<open>10 ^ 400\<close> raises \<^verbatim>\<open>OverflowError\<close> in every float environment; an
  infinite place latitude raises \<^verbatim>\<open>ValueError\<close>; a \<^verbatim>\<open>nan\<close> place latitude makes the
  distance \<^verbatim>\<open>nan\<close>.
\<close>

theorem add_distance_raises_on_numbers:
  "add_distance observed_fp ctx_gulf (PFloat (Finite (- (5 / 2)))) (PFloat (Finite 180))
     = Inl ValueError \<and>
   add_distance fp ctx0 (PInt (10 ^ 400)) (PFloat (Finite 77.209)) = Inl OverflowError \<and>
   add_distance observed_fp ctx0 (PFloat PosInf) (PFloat (Finite 77.209)) = Inl ValueError \<and>
   add_distance observed_fp ctx0 (PFloat NaN) (PFloat (Finite 77.209)) = Inr (Some NaN)"
proof -
  have a: "add_distance observed_fp ctx_gulf (PFloat (Finite (- (5 / 2)))) (PFloat (Finite 180))
     = Inl ValueError"
    by (simp add: float_defs observed_defs ctx_gulf_def)
  have b: "add_distance fp ctx0 (PInt (10 ^ 400)) (PFloat (Finite 77.209)) = Inl OverflowError"
    by (simp add: float_defs ctx0_def)
  have c: "add_distance observed_fp ctx0 (PFloat PosInf) (PFloat (Finite 77.209)) = Inl ValueError"
    by (simp add: float_defs ctx0_def inf_times_def observed_defs)
  have d: "add_distance observed_fp ctx0 (PFloat NaN) (PFloat (Finite 77.209)) = Inr (Some NaN)"
    by (simp add: float_defs ctx0_def observed_defs)
  show ?thesis using a b c d by simp
qed

text \<open>
  Claim C5 (the code departs from it). The points (2.5, 0) and (-2.5, 180) pass
  \<^verbatim>\<open>validate_coordinates\<close>. With the doubles the machine computes, the value of \<^verbatim>\<open>a\<close>
  for them is \<open>1 + 2\<^sup>-\<^sup>5\<^sup>2\<close>, above 1, and \<^verbatim>\<open>_haversine_km\<close> raises \<^verbatim>\<open>ValueError\<close> in
  \<^verbatim>\<open>math.sqrt(1 - a)\<close>, whichever of the two points comes first: there is no distance
  to compare.
\<close>

theorem haversine_km_raises_on_antipodes:
  "validate_coordinates fos (PFloat (Finite (5 / 2))) (PFloat (Finite 0)) = Inr True \<and>
   validate_coordinates fos (PFloat (Finite (- (5 / 2)))) (PFloat (Finite 180)) = Inr True \<and>
   haversine_a observed_fp (NFloat (Finite (5 / 2))) (NFloat (Finite 0))
       (NFloat (Finite (- (5 / 2)))) (NFloat (Finite 180)) = Inr (Finite (1 + 1 / 2 ^ 52)) \<and>
   haversine_km observed_fp (NFloat (Finite (5 / 2))) (NFloat (Finite 0))
       (NFloat (Finite (- (5 / 2)))) (NFloat (Finite 180)) = Inl ValueError \<and>
   haversine_km observed_fp (NFloat (Finite (- (5 / 2)))) (NFloat (Finite 180))
       (NFloat (Finite (5 / 2))) (NFloat (Finite 0)) = Inl ValueError"
proof -
  have v: "validate_coordinates fos (PFloat (Finite (5 / 2))) (PFloat (Finite 0)) = Inr True"
      "validate_coordinates fos (PFloat (Finite (- (5 / 2)))) (PFloat (Finite 180)) = Inr True"
    by (simp_all add: validate_coordinates_def py_float_def fl_between_def bnd_def)
  have a: "haversine_a observed_fp (NFloat (Finite (5 / 2))) (NFloat (Finite 0))
       (NFloat (Finite (- (5 / 2)))) (NFloat (Finite 180)) = Inr (Finite (1 + 1 / 2 ^ 52))"
    by (simp add: float_defs observed_defs)
  have k: "haversine_km observed_fp (NFloat (Finite (5 / 2))) (NFloat (Finite 0))
       (NFloat (Finite (- (5 / 2)))) (NFloat (Finite 180)) = Inl ValueError"
      "haversine_km observed_fp (NFloat (Finite (- (5 / 2)))) (NFloat (Finite 180))
       (NFloat (Finite (5 / 2))) (NFloat (Finite 0)) = Inl ValueError"
    by (simp_all add: float_defs observed_defs)
  show ?thesis using v a k by simp
qed

section \<open>Properties of the location ladder\<close>

lemmas ladder_defs = fetch_local_results_def aggressive_stage_def no_location_stage_def
  attempt_def attempt_try_def accepted_def first_segment_def

lemma no_location_stage_calls:
  "length (fst (no_location_stage serp base_params calls)) \<le> Suc (length calls)"
  by (simp add: no_location_stage_def Let_def split: option.splits)

lemma aggressive_stage_calls:
  "length (fst (aggressive_stage serp base_params calls)) \<le> Suc (Suc (length calls))"
proof -
  have a: "length (fst (no_location_stage serp base_params calls)) \<le> Suc (Suc (length calls))"
    using no_location_stage_calls [of serp base_params calls] by simp
  have b: "length (fst (no_location_stage serp base_params (calls @ [c]))) \<le> Suc (Suc (length calls))"
    for c
    using no_location_stage_calls [of serp base_params "calls @ [c]"] by simp
  show ?thesis
    unfolding aggressive_stage_def Let_def
    using a b by (auto split: pyval.splits option.splits)
qed

text \<open>Every invocation sends at least one and at most three requests.\<close>

lemma fetch_local_results_at_most_three:
  "1 \<le> length (fst (fetch_local_results serp params)) \<and>
   length (fst (fetch_local_results serp params)) \<le> 3"
proof -
  have "length (fst (aggressive_stage serp b [c])) \<le> 3" for b c
    using aggressive_stage_calls [of serp b "[c]"] by simp
  moreover have "1 \<le> length (fst (no_location_stage serp b calls))" if "1 \<le> length calls"
    for b calls
    using that by (simp add: no_location_stage_def Let_def split: option.splits)
  then have "1 \<le> length (fst (aggressive_stage serp b [c]))" for b c
    unfolding aggressive_stage_def Let_def
    by (auto split: pyval.splits option.splits)
  ultimately show ?thesis
    unfolding fetch_local_results_def Let_def
    by (auto split: option.splits)
qed

text \<open>A first request that brings a non-empty payload ends the ladder.\<close>

lemma fetch_local_results_first_success:
  "attempt serp params = Some v \<Longrightarrow> truthy v \<Longrightarrow> \<not> truthy (dget params ''location'') \<Longrightarrow>
     fetch_local_results serp params = ([(''initial'', params)], Inr v)"
  by (simp add: fetch_local_results_def accepted_def)

text \<open>
  Claim C1 (the code departs from it). The claim lets the ladder go past its first
  request only after an HTTP 400. Here every request times out, no response has status
  400, and \<^verbatim>\<open>fetch_local_results\<close> still sends all three requests (initial, aggressive
  location, no location) before it returns the empty payload.
\<close>

theorem fetch_local_results_escalates_on_timeout:
  "fetch_local_results always_timeout
     [(''engine'', PStr ''google_local''), (''q'', PStr ''coffee''),
      (''location'', PStr ''Connaught Place, New Delhi'')]
   = ([(''initial'', [(''engine'', PStr ''google_local''), (''q'', PStr ''coffee''),
                     (''location'', PStr ''Connaught Place, New Delhi'')]),
       (''aggressive_location'', [(''engine'', PStr ''google_local''), (''q'', PStr ''coffee''),
                     (''location'', PStr ''Connaught Place'')]),
       (''no_location'', [(''engine'', PStr ''google_local''), (''q'', PStr ''coffee'')])],
      Inr (PDict []))"
  by (simp add: ladder_defs always_timeout_def simplify_location_def strip_def is_space_def
      dget_def Let_def AList.delete_eq)

lemma simplify_location_not_str: "\<forall>s. loc \<noteq> PStr s \<Longrightarrow> simplify_location loc = loc"
  by (cases loc) (simp_all add: simplify_location_def)

lemma simplify_location_empty: "simplify_location (PStr []) = PStr []"
  by (simp add: simplify_location_def)

text \<open>
  Claim C10 (the code departs from it). \<^verbatim>\<open>_simplify_location\<close> is not idempotent:
  removing the phrase Municipal Corporation in one pass can bring its two halves
  together, and the second application removes the phrase that the first one formed.
\<close>

theorem simplify_location_not_idempotent:
  "simplify_location (PStr ''X Municipal Municipal CorporationCorporation'')
     = PStr ''X Municipal Corporation'' \<and>
   simplify_location (simplify_location (PStr ''X Municipal Municipal CorporationCorporation''))
     = PStr ''X''"
  by (simp add: simplify_location_def strip_def is_space_def)

section \<open>Properties of the location cache\<close>

lemma save_location_cache_round_trip:
  assumes "truthy (dget location_data ''latitude'')" "truthy (dget location_data ''longitude'')"
      and "validate_coordinates fos (dget location_data ''latitude'')
             (dget location_data ''longitude'') = Inr True"
  shows "save_location_cache fos Written cache location_data
           = (True, Document (PDict location_data)) \<and>
         get_location_cache fos (Document (PDict location_data)) = Some (PDict location_data)"
  using assms by (simp add: save_location_cache_def get_location_cache_def pget_def bnd_def)

lemma save_location_cache_rejects_out_of_range:
  "validate_coordinates fos (dget location_data ''latitude'')
     (dget location_data ''longitude'') = Inr False \<Longrightarrow>
     save_location_cache fos write cache location_data = (False, cache)"
  by (simp add: save_location_cache_def)

text \<open>
  Claim C7 (the code departs from it). Latitude 0 is within [-90, 90] and passes
  \<^verbatim>\<open>validate_coordinates\<close>, yet \<^verbatim>\<open>save_location_cache\<close> refuses the document, because
  its presence test \<^verbatim>\<open>not location_data.get('latitude')\<close> takes 0 for a missing value:
  nothing is written, and \<^verbatim>\<open>get_location_cache\<close> does not return the coordinates.
\<close>

theorem save_location_cache_rejects_zero_latitude:
  "validate_coordinates fos (PInt 0) (PFloat (Finite 77.209)) = Inr True \<and>
   save_location_cache fos Written NoFile
       [(''latitude'', PInt 0), (''longitude'', PFloat (Finite 77.209))]
     = (False, NoFile) \<and>
   get_location_cache fos
     (snd (save_location_cache fos Written NoFile
             [(''latitude'', PInt 0), (''longitude'', PFloat (Finite 77.209))])) = None"
  by (simp add: save_location_cache_def get_location_cache_def validate_coordinates_def
      py_float_def fl_between_def bnd_def dget_def)

section \<open>Properties of the ranking gateway\<close>

text \<open>
  Claim C8, amended. \<^verbatim>\<open>rank_places_api\<close> reports success exactly when the reply of the
  model parses as JSON, and then returns the parsed value unchanged under \<^verbatim>\<open>data\<close>,
  beside the raw text; a reply that does not parse is reported as failed with the raw
  text kept. The rank values are not inspected.
\<close>

theorem rank_places_api_accepts_any_json:
  "rank_places_api (Reply (Parsed raw ranked_data))
     = [(''success'', PBool True), (''data'', ranked_data), (''raw_response'', PStr raw)] \<and>
   dget (rank_places_api llm) ''success''
     = PBool (case llm of Reply (Parsed r v) \<Rightarrow> True | _ \<Rightarrow> False) \<and>
   dget (rank_places_api (Reply (Unparsable raw msg))) ''raw_response'' = PStr raw"
  by (simp add: rank_places_api_def dget_def split: llm_outcome.splits llm_content.splits)

text \<open>
  Claim C8 as stated fails: a reply whose two places both have rank 2 is accepted with
  \<^verbatim>\<open>success == True\<close>.
\<close>

theorem rank_places_api_duplicate_ranks:
  "dget (rank_places_api (Reply (Parsed ''(the reply)'' duplicate_ranks))) ''success'' = PBool True \<and>
   ranked_places (dget (rank_places_api (Reply (Parsed ''(the reply)'' duplicate_ranks))) ''data'')
     = Some [PDict [(''rank'', PInt 2)], PDict [(''rank'', PInt 2)]] \<and>
   \<not> contiguous_ranks [PDict [(''rank'', PInt 2)], PDict [(''rank'', PInt 2)]]"
  by (simp add: rank_places_api_def dget_def ranked_places_def contiguous_ranks_def rank_of_def
      duplicate_ranks_def)

section \<open>Properties of the query planner\<close>

lemma dget_update_same: "dget (AList.update k v d) k = v"
  by (simp add: dget_def update_conv')

lemma dget_update_other: "k' \<noteq> k \<Longrightarrow> dget (AList.update k v d) k' = dget d k'"
  by (simp add: dget_def update_conv')

text \<open>What the clamp of \<^verbatim>\<open>generate_fs_params\<close> achieves: a limit of at most 5, or \<^verbatim>\<open>nan\<close>.\<close>

lemma dget_limit_after_ll:
  "dget (if c then AList.update ''ll'' v d else d) ''limit'' = dget d ''limit''"
  by (simp add: dget_update_other)

lemma fs_postprocess_out:
  assumes "fs_postprocess ctx (PDict d) = Inr out"
  shows "\<exists>clamp. (if \<not> truthy (dget d ''limit'') then Inr True
                    else py_gt (dget_default d ''limit'' (PInt 0)) 5) = Inr clamp \<and>
           dget out ''limit'' = (if clamp then PInt 5 else dget d ''limit'')"
proof -
  from assms obtain clamp where
      c: "(if \<not> truthy (dget d ''limit'') then Inr True
           else py_gt (dget_default d ''limit'' (PInt 0)) 5) = Inr clamp"
      and o: "out = (let d1 = (if clamp then AList.update ''limit'' (PInt 5) d else d)
                     in if \<not> truthy (dget d1 ''ll'') \<and> \<not> truthy (dget d1 ''near'')
                        then AList.update ''ll'' (PStr (ll ctx)) d1 else d1)"
    unfolding fs_postprocess_def by (auto dest!: bnd_Inr simp: Let_def)
  have "dget out ''limit'' = (if clamp then PInt 5 else dget d ''limit'')"
    unfolding o Let_def dget_limit_after_ll by (simp add: dget_update_same)
  with c show ?thesis by blast
qed

lemma fs_postprocess_limit:
  assumes "fs_postprocess ctx params = Inr out"
  shows "dget out ''limit'' = PFloat NaN \<or> at_most (dget out ''limit'') 5"
proof -
  from assms obtain d where d: "params = PDict d"
    by (cases params) (simp_all add: fs_postprocess_def)
  from assms d obtain clamp where
      c: "(if \<not> truthy (dget d ''limit'') then Inr True
           else py_gt (dget_default d ''limit'' (PInt 0)) 5) = Inr clamp"
      and o: "dget out ''limit'' = (if clamp then PInt 5 else dget d ''limit'')"
    using fs_postprocess_out by blast
  show ?thesis
  proof (cases clamp)
    case True
    with o show ?thesis by (simp add: at_most_def)
  next
    case False
    with c have t: "truthy (dget d ''limit'')" by (auto split: if_splits)
    then have m: "dget_default d ''limit'' (PInt 0) = dget d ''limit''"
      by (auto simp: dget_def dget_default_def split: option.splits)
    from c t m False have g: "py_gt (dget d ''limit'') 5 = Inr False" by simp
    have "dget d ''limit'' = PFloat NaN \<or> at_most (dget d ''limit'') 5"
    proof (cases "as_number (dget d ''limit'')")
      case None
      with g show ?thesis by (simp add: py_gt_def)
    next
      case (Some n)
      show ?thesis
      proof (cases n)
        case (NInt i)
        with Some g show ?thesis by (auto simp: py_gt_def at_most_def)
      next
        case (NFloat f)
        with Some have "dget d ''limit'' = PFloat f"
          by (cases "dget d ''limit''") (auto split: if_splits)
        with NFloat Some g show ?thesis
          by (cases f) (auto simp: py_gt_def at_most_def)
      qed
    qed
    with o False show ?thesis by simp
  qed
qed

lemma fs_postprocess_ll:
  assumes "fs_postprocess ctx (PDict d) = Inr out"
      and "\<not> truthy (dget d ''ll'')" "\<not> truthy (dget d ''near'')"
  shows "dget out ''ll'' = PStr (ll ctx)"
  using assms
  by (auto simp: fs_postprocess_def bnd_def Let_def dget_update_same dget_update_other
           split: sum.splits if_splits)

text \<open>
  Whatever \<^verbatim>\<open>generate_fs_params\<close> returns has a limit that is at most 5 or is \<^verbatim>\<open>nan\<close>;
  and when the parameters after the \<^verbatim>\<open>try\<close> have neither \<^verbatim>\<open>ll\<close> nor \<^verbatim>\<open>near\<close>, the
  returned \<^verbatim>\<open>ll\<close> is the context's.
\<close>

lemma generate_fs_params_limit_and_ll:
  assumes "generate_fs_params llm user_prompt ctx = Inr params"
  shows "(dget params ''limit'' = PFloat NaN \<or> at_most (dget params ''limit'') 5) \<and>
         (\<forall>content d. llm = Reply content \<and>
            fs_parsed_or_default content user_prompt ctx = Inr (PDict d) \<and>
            \<not> truthy (dget d ''ll'') \<and> \<not> truthy (dget d ''near'')
            \<longrightarrow> dget params ''ll'' = PStr (ll ctx))"
proof -
  from assms obtain content v where c: "llm = Reply content"
      "fs_parsed_or_default content user_prompt ctx = Inr v" "fs_postprocess ctx v = Inr params"
    by (cases llm) (auto simp: generate_fs_params_def bnd_def split: sum.splits)
  have "dget params ''limit'' = PFloat NaN \<or> at_most (dget params ''limit'') 5"
    using c(3) by (rule fs_postprocess_limit)
  moreover have "dget params ''ll'' = PStr (ll ctx)"
    if "llm = Reply content'" "fs_parsed_or_default content' user_prompt ctx = Inr (PDict d)"
       "\<not> truthy (dget d ''ll'')" "\<not> truthy (dget d ''near'')" for content' d
  proof -
    from that c have "v = PDict d" by simp
    with c(3) that show ?thesis using fs_postprocess_ll by blast
  qed
  ultimately show ?thesis by blast
qed

text \<open>
  Claim C6 (the code departs from it). The model replies \<^verbatim>\<open>{"limit": NaN}\<close>, which
  \<^verbatim>\<open>json.loads\<close> accepts. \<^verbatim>\<open>nan\<close> is true and \<^verbatim>\<open>nan > 5\<close> is false, so the clamp of
  \<^verbatim>\<open>generate_fs_params\<close> leaves it: the returned limit is \<^verbatim>\<open>nan\<close>, which is not at
  most 5.
\<close>

theorem generate_fs_params_keeps_nan_limit:
  "generate_fs_params (Reply (Parsed nan_limit_text (PDict [(''limit'', PFloat NaN)])))
      ''coffee shops'' ctx0
     = Inr [(''limit'', PFloat NaN), (''ll'', PStr ''28.6139,77.209'')] \<and>
   \<not> at_most (PFloat NaN) 5"
  by (simp add: generate_fs_params_def fs_parsed_or_default_def json_loads_def fs_postprocess_def
      bnd_def dget_def dget_default_def py_gt_def at_most_def ctx0_def Let_def)

text \<open>
  Claim C2 as stated fails: when the call to the model fails, \<^verbatim>\<open>generate_fs_params\<close>
  raises; it returns no default.
\<close>

theorem generate_fs_params_call_failure_propagates:
  "generate_fs_params (CallFailed ''timed out'') ''coffee shops'' ctx0 = Inl LLMError"
  by (simp add: generate_fs_params_def)

text \<open>
  Claim C2, amended. When the model replies with text that is not JSON, both planners
  return a fixed default: the search term is the free text (the word coffee when the free
  text is empty); the directory planner anchors it at the context's \<^verbatim>\<open>ll\<close> with limit
  5, the web-local planner at the context's \<^verbatim>\<open>text_location\<close> with \<^verbatim>\<open>num\<close> 10. When
  the call to the model itself fails, both planners raise.
\<close>

theorem planner_fallback_on_unparsable:
  "generate_fs_params (Reply (Unparsable raw msg)) user_prompt ctx
     = Inr (fs_default_params user_prompt ctx) \<and>
   dget (fs_default_params user_prompt ctx) ''query''
     = PStr (if user_prompt \<noteq> [] then user_prompt else ''coffee'') \<and>
   dget (fs_default_params user_prompt ctx) ''ll'' = PStr (ll ctx) \<and>
   dget (fs_default_params user_prompt ctx) ''limit'' = PInt 5 \<and>
   generate_serp_params int_of_str api_key (Reply (Unparsable raw msg)) user_prompt ctx
     = Inr (serp_default_params user_prompt ctx @ [(''api_key'', api_key)]) \<and>
   dget (serp_default_params user_prompt ctx) ''q''
     = PStr (if user_prompt \<noteq> [] then user_prompt else ''coffee'') \<and>
   dget (serp_default_params user_prompt ctx) ''location'' = py_or (text_location ctx) PNone \<and>
   dget (serp_default_params user_prompt ctx) ''num'' = PInt 10 \<and>
   generate_fs_params (CallFailed err) user_prompt ctx = Inl LLMError \<and>
   generate_serp_params int_of_str api_key (CallFailed err) user_prompt ctx = Inl LLMError"
proof -
  have fs: "generate_fs_params (Reply (Unparsable raw msg)) user_prompt ctx
     = Inr (fs_default_params user_prompt ctx)"
    by (simp add: generate_fs_params_def fs_parsed_or_default_def json_loads_def fs_postprocess_def
        bnd_def dget_def dget_default_def py_gt_def fs_default_params_def Let_def)
  have serp: "generate_serp_params int_of_str api_key (Reply (Unparsable raw msg)) user_prompt ctx
     = Inr (serp_default_params user_prompt ctx @ [(''api_key'', api_key)])"
    by (simp add: generate_serp_params_def serp_parsed_or_default_def json_loads_def
        serp_postprocess_def bnd_def dget_def serp_default_params_def setdefault_def py_or_def Let_def)
  show ?thesis
    using fs serp
    by (simp add: fs_default_params_def serp_default_params_def dget_def
        generate_fs_params_def generate_serp_params_def)
qed

section \<open>Properties of the directory fetch\<close>

lemma fetch_details_all_ok:
  "fetch_details fp fsq_details ctx ids = Inr recs \<Longrightarrow>
     length recs = length ids \<and> (\<forall>fid \<in> set ids. \<exists>d. fetch_place_details fsq_details fid = Inr d)"
proof (induction ids arbitrary: recs)
  case Nil
  then show ?case by simp
next
  case (Cons fid fids)
  from Cons.prems obtain d r dk rest where
      "fetch_place_details fsq_details fid = Inr d"
      "fetch_details fp fsq_details ctx fids = Inr rest"
      "recs = AList.update ''distance_km'' (distance_value dk) r # rest"
    by (auto split: sum.splits)
  with Cons.IH [of rest] show ?case by auto
qed

text \<open>
  Claim C3, amended. Given the identifiers the search returned: if the detail call of
  any of them fails, \<^verbatim>\<open>run_fs\<close> fails as a whole and returns no record; when \<^verbatim>\<open>run_fs\<close>
  returns, every detail call succeeded and there is one record per identifier.
\<close>

theorem run_fs_detail_failure_aborts:
  assumes "generate_fs_params llm user_query ctx = Inr params"
      and "search_foursquare fsq_search params = Inr ids"
  shows "(fid \<in> set ids \<and> fetch_place_details fsq_details fid = Inl e
            \<longrightarrow> (\<exists>e'. run_fs fp llm fsq_search fsq_details user_query ctx = Inl e')) \<and>
         (run_fs fp llm fsq_search fsq_details user_query ctx = Inr out
            \<longrightarrow> sr_count out = length ids \<and> length (sr_results out) = length ids \<and>
                (\<forall>i \<in> set ids. \<exists>d. fetch_place_details fsq_details i = Inr d))"
proof -
  have run: "run_fs fp llm fsq_search fsq_details user_query ctx =
      bnd (fetch_details fp fsq_details ctx ids) (\<lambda>details.
        Inr \<lparr>sr_context = ctx, sr_query = user_query,
             sr_count = length details, sr_results = details\<rparr>)"
    using assms by (simp add: run_fs_def bnd_def)
  have ok: "sr_count out' = length ids \<and> length (sr_results out') = length ids \<and>
      (\<forall>i \<in> set ids. \<exists>d. fetch_place_details fsq_details i = Inr d)"
    if "run_fs fp llm fsq_search fsq_details user_query ctx = Inr out'" for out'
  proof -
    from that run obtain details where d: "fetch_details fp fsq_details ctx ids = Inr details"
        "out' = \<lparr>sr_context = ctx, sr_query = user_query,
             sr_count = length details, sr_results = details\<rparr>"
      by (auto dest!: bnd_Inr)
    from fetch_details_all_ok [OF d(1)] d(2) show ?thesis by simp
  qed
  have bad: "\<exists>e'. run_fs fp llm fsq_search fsq_details user_query ctx = Inl e'"
    if "fid \<in> set ids" "fetch_place_details fsq_details fid = Inl e"
  proof (cases "run_fs fp llm fsq_search fsq_details user_query ctx")
    case (Inl e')
    then show ?thesis by blast
  next
    case (Inr o')
    from ok [OF Inr] that show ?thesis by auto
  qed
  show ?thesis using ok bad by blast
qed

lemmas run_fs_eval_defs = run_fs_def generate_fs_params_def fs_parsed_or_default_def
  json_loads_def fs_postprocess_def fs_default_params_def search_foursquare_def
  two_ids_search_def fetch_place_details_def http_json_def pget_def pget_default_def
  py_iter_def bnd_def dget_def dget_default_def py_gt_def ctx0_def prose_reply_def

theorem run_fs_detail_failure_aborts_witness:
  "generate_fs_params prose_reply ''coffee shops'' ctx0
     = Inr (fs_default_params ''coffee shops'' ctx0) \<and>
   search_foursquare two_ids_search (fs_default_params ''coffee shops'' ctx0)
     = Inr [PStr ''a'', PStr ''b''] \<and>
   PStr ''a'' \<in> set [PStr ''a'', PStr ''b''] \<and>
   fetch_place_details first_detail_fails (PStr ''a'') = Inl (HTTPError 500) \<and>
   (\<exists>e'. run_fs exact_fp prose_reply two_ids_search first_detail_fails ''coffee shops'' ctx0 = Inl e') \<and>
   (\<exists>out. run_fs exact_fp prose_reply two_ids_search every_detail_ok ''coffee shops'' ctx0 = Inr out \<and>
          sr_count out = 2 \<and> length (sr_results out) = 2)"
proof -
  have g: "generate_fs_params prose_reply ''coffee shops'' ctx0
     = Inr (fs_default_params ''coffee shops'' ctx0)"
    by (simp add: generate_fs_params_def fs_parsed_or_default_def json_loads_def fs_postprocess_def
        bnd_def dget_def dget_default_def py_gt_def fs_default_params_def prose_reply_def Let_def)
  have s: "search_foursquare two_ids_search (fs_default_params ''coffee shops'' ctx0)
     = Inr [PStr ''a'', PStr ''b'']"
    by (simp add: search_foursquare_def two_ids_search_def http_json_def pget_def pget_default_def
        py_iter_def bnd_def dget_def dget_default_def Let_def)
  have m: "PStr ''a'' \<in> set [PStr ''a'', PStr ''b'']" by simp
  have f: "fetch_place_details first_detail_fails (PStr ''a'') = Inl (HTTPError 500)"
    by (simp add: fetch_place_details_def first_detail_fails_def http_json_def)
  have r: "\<exists>out. run_fs exact_fp prose_reply two_ids_search every_detail_ok ''coffee shops'' ctx0 = Inr out"
    by (simp add: run_fs_eval_defs every_detail_ok_def summarize_fs_def py_or_def str_items.simps
        py_index0_def add_distance_def distance_value_def Let_def)
  from r obtain out where o: "run_fs exact_fp prose_reply two_ids_search every_detail_ok ''coffee shops'' ctx0 = Inr out"
    by blast
  have a: "\<exists>e'. run_fs exact_fp prose_reply two_ids_search first_detail_fails ''coffee shops'' ctx0 = Inl e'"
    using run_fs_detail_failure_aborts
            [OF g s, where fid = "PStr ''a''" and fsq_details = first_detail_fails
               and e = "HTTPError 500" and fp = exact_fp] m f
    by blast
  have b: "sr_count out = 2 \<and> length (sr_results out) = 2"
    using run_fs_detail_failure_aborts
            [OF g s, where fsq_details = every_detail_ok and fp = exact_fp and out = out] o
    by simp
  show ?thesis using g s m f a b o by blast
qed

text \<open>
  Claim C3 as stated fails: the search finds two places, the detail call of the first
  answers 500, that of the second would succeed, and \<^verbatim>\<open>run_fs\<close> raises instead of
  returning the second record.
\<close>

theorem run_fs_first_detail_fails:
  "run_fs exact_fp prose_reply two_ids_search first_detail_fails ''coffee shops'' ctx0 = Inl (HTTPError 500) \<and>
   fetch_place_details first_detail_fails (PStr ''b'')
     = Inr (PDict [(''fsq_place_id'', PStr ''b''), (''name'', PStr ''Cafe'')])"
  by (simp add: run_fs_eval_defs first_detail_fails_def Let_def)


section \<open>Properties of the review resolver\<close>

lemma slice_to_length: "0 \<le> n \<Longrightarrow> length (slice_to xs n) \<le> nat n"
  by (simp add: slice_to_def)

lemma review_snippets_length: "review_snippets rvs = Inr out \<Longrightarrow> length out = length rvs"
  by (induction rvs arbitrary: out) (auto split: sum.splits)

lemma review_loop_bound:
  assumes "0 \<le> n" "py_slice_to reviews n = Inr sl" "py_iter sl = Inr rvs"
      and "review_snippets rvs = Inr out"
  shows "length out \<le> nat n"
proof -
  from assms(2,3) have "length rvs \<le> nat n"
    by (cases reviews) (auto simp: py_slice_to_def py_iter_def slice_to_length assms(1))
  with review_snippets_length [OF assms(4)] show ?thesis by simp
qed

lemma fetch_reviews_bound:
  assumes "0 \<le> max_reviews"
      and "fetch_reviews str_of serp base_params result max_reviews = Inr out"
  shows "length out \<le> nat max_reviews"
proof -
  from assms(2) have "out = [] \<or> (\<exists>reviews sl rvs. py_slice_to reviews max_reviews = Inr sl \<and>
      py_iter sl = Inr rvs \<and> review_snippets rvs = Inr out)"
    unfolding fetch_reviews_def Let_def
    by (auto dest!: bnd_Inr split: option.splits)
  then show ?thesis
  proof
    assume "out = []"
    then show ?thesis by simp
  next
    assume "\<exists>reviews sl rvs. py_slice_to reviews max_reviews = Inr sl \<and>
      py_iter sl = Inr rvs \<and> review_snippets rvs = Inr out"
    then obtain reviews sl rvs where "py_slice_to reviews max_reviews = Inr sl"
      "py_iter sl = Inr rvs" "review_snippets rvs = Inr out" by blast
    with assms(1) show ?thesis by (rule review_loop_bound)
  qed
qed

lemma case_call_failed:
  "\<exists>e. m = Inl e \<Longrightarrow> (case m of Inl e \<Rightarrow> a | Inr v \<Rightarrow> f v) = a"
  by auto

lemma resolve_all_calls_fail:
  assumes "\<forall>p. \<exists>e. http_json (serp p) = Inl e"
  shows "resolve_data_id_via_maps str_of serp base_params result = Inr PNone"
proof -
  have h: "\<exists>e. http_json (serp p) = Inl e" for p using assms by blast
  show ?thesis
    unfolding resolve_data_id_via_maps_def Let_def
    by (simp add: case_call_failed h)
qed

lemma fetch_reviews_all_calls_fail:
  assumes "\<forall>p. \<exists>e. http_json (serp p) = Inl e"
  shows "fetch_reviews str_of serp base_params result max_reviews = Inr []"
proof -
  have h: "\<exists>e. http_json (serp p) = Inl e" for p using assms by blast
  have r: "resolve_data_id_via_maps str_of serp base_params result = Inr PNone"
    using assms by (rule resolve_all_calls_fail)
  have p: "(case http_json (serp q) of Inl e \<Rightarrow> PDict [] | Inr v \<Rightarrow> v) = PDict []" for q
    using h [of q] by auto
  show ?thesis
    unfolding fetch_reviews_def Let_def r p
    by (simp add: bnd_def pget_default_def dget_default_def py_or_def py_slice_to_def
        slice_to_def py_iter_def)
qed

lemma fetch_reviews_no_identifier:
  assumes "\<not> truthy (dget result ''google_place_id'')"
      and "resolve_data_id_via_maps str_of serp base_params result = Inr PNone"
  shows "fetch_reviews str_of serp base_params result max_reviews = Inr []"
  using assms by (simp add: fetch_reviews_def select_review_identifier_def bnd_def Let_def)

lemma fetch_reviews_failed_retry:
  assumes "truthy (dget result ''google_place_id'')"
      and "http_json (serp (reviews_request base_params
             (select_review_identifier str_of result))) = Inl e1"
      and "resolve_data_id_via_maps str_of serp base_params result = Inr rid" "truthy rid"
      and "http_json (serp (reviews_request base_params
             (format_google_place_id str_of rid))) = Inl e2"
  shows "fetch_reviews str_of serp base_params result max_reviews = Inr []"
proof -
  have n: "select_review_identifier str_of result \<noteq> []"
    using assms(1)
    by (auto simp: select_review_identifier_def format_google_place_id_def Let_def
        split: pyval.splits)
  show ?thesis
    unfolding fetch_reviews_def Let_def
    using n assms
    by (simp add: bnd_def pget_default_def dget_default_def py_or_def py_slice_to_def
        slice_to_def py_iter_def)
qed

text \<open>The exceptions that can leave the functions reading a payload.\<close>

lemma bnd_Inl: "bnd m f = Inl e \<Longrightarrow> m = Inl e \<or> (\<exists>x. m = Inr x \<and> f x = Inl e)"
  by (cases m) (simp_all add: bnd_def)

lemma pget_error: "pget x k = Inl e \<Longrightarrow> shape_error e"
  by (cases x) (simp_all add: pget_def shape_error_def)

lemma pget_default_error: "pget_default x k v = Inl e \<Longrightarrow> shape_error e"
  by (cases x) (simp_all add: pget_default_def shape_error_def)

lemma py_iter_error: "py_iter v = Inl e \<Longrightarrow> shape_error e"
  by (cases v) (simp_all add: py_iter_def shape_error_def)

lemma py_slice_to_error: "py_slice_to v n = Inl e \<Longrightarrow> shape_error e"
  by (cases v) (simp_all add: py_slice_to_def shape_error_def)

lemma first_identifier_error: "first_identifier its = Inl e \<Longrightarrow> shape_error e"
  by (induction its) (auto simp: shape_error_def split: pyval.splits if_splits)

lemma review_snippet_error: "review_snippet rv = Inl e \<Longrightarrow> shape_error e"
  by (auto simp: review_snippet_def shape_error_def split: pyval.splits)

lemma review_snippets_error: "review_snippets rvs = Inl e \<Longrightarrow> shape_error e"
  by (induction rvs) (auto split: sum.splits dest: review_snippet_error)

lemma resolve_error:
  assumes "resolve_data_id_via_maps str_of serp base_params result = Inl e"
  shows "shape_error e"
proof -
  have at: "shape_error AttributeError" by (simp add: shape_error_def)
  from assms show ?thesis
    unfolding resolve_data_id_via_maps_def Let_def
    by (auto dest!: bnd_Inl
             dest: pget_error pget_default_error py_iter_error first_identifier_error
             simp: at split: if_splits sum.splits pyval.splits)
qed

lemma review_loop_error:
  assumes "bnd (py_slice_to reviews n) (\<lambda>sl. bnd (py_iter sl) review_snippets) = Inl e"
  shows "shape_error e"
  using assms
  by (auto dest!: bnd_Inl dest: py_slice_to_error py_iter_error review_snippets_error)

lemma fetch_reviews_error:
  assumes "fetch_reviews str_of serp base_params result max_reviews = Inl e"
  shows "shape_error e"
proof -
  from assms have
    "resolve_data_id_via_maps str_of serp base_params result = Inl e \<or>
     (\<exists>x k v. pget_default x k v = Inl e) \<or>
     (\<exists>v. py_slice_to v max_reviews = Inl e) \<or>
     (\<exists>v. py_iter v = Inl e) \<or>
     (\<exists>rvs. review_snippets rvs = Inl e)"
    unfolding fetch_reviews_def Let_def bnd_def
    by (auto split: option.splits if_splits sum.splits)
  then show ?thesis
    using resolve_error pget_default_error py_slice_to_error py_iter_error review_snippets_error
    by blast
qed

text \<open>
  Claim C9, amended. For every record and every cap that is not negative, whatever
  \<^verbatim>\<open>fetch_reviews\<close> returns has at most that many snippets. No failure of an HTTP call
  leaves \<^verbatim>\<open>fetch_reviews\<close>, at any stage: an exception it raises comes from reading a
  decoded payload of unexpected shape. A missing identifier that is not resolved gives
  the empty list; so does a retry whose request fails after a first request that
  failed; so does the failure of every request.
\<close>

theorem fetch_reviews_bounded_best_effort:
  "(0 \<le> max_reviews \<and> fetch_reviews str_of serp base_params result max_reviews = Inr out
      \<longrightarrow> length out \<le> nat max_reviews) \<and>
   (fetch_reviews str_of serp base_params result max_reviews = Inl e
      \<longrightarrow> shape_error e \<and> e \<noteq> RequestException \<and> e \<noteq> JSONDecodeError \<and>
          (\<forall>st. e \<noteq> HTTPError st)) \<and>
   (\<not> truthy (dget result ''google_place_id'') \<and>
    resolve_data_id_via_maps str_of serp base_params result = Inr PNone
      \<longrightarrow> fetch_reviews str_of serp base_params result max_reviews = Inr []) \<and>
   (truthy (dget result ''google_place_id'') \<and>
    http_json (serp (reviews_request base_params (select_review_identifier str_of result)))
      = Inl e1 \<and>
    resolve_data_id_via_maps str_of serp base_params result = Inr rid \<and> truthy rid \<and>
    http_json (serp (reviews_request base_params (format_google_place_id str_of rid))) = Inl e2
      \<longrightarrow> fetch_reviews str_of serp base_params result max_reviews = Inr []) \<and>
   ((\<forall>p. \<exists>e. http_json (serp p) = Inl e)
      \<longrightarrow> fetch_reviews str_of serp base_params result max_reviews = Inr [])"
proof -
  have "shape_error e \<and> e \<noteq> RequestException \<and> e \<noteq> JSONDecodeError \<and> (\<forall>st. e \<noteq> HTTPError st)"
    if "fetch_reviews str_of serp base_params result max_reviews = Inl e"
    using fetch_reviews_error [OF that] by (auto simp: shape_error_def)
  then show ?thesis
    using fetch_reviews_bound [of max_reviews str_of serp base_params result out]
          fetch_reviews_all_calls_fail [of serp str_of base_params result max_reviews]
          fetch_reviews_no_identifier [of result str_of serp base_params max_reviews]
          fetch_reviews_failed_retry [of result serp base_params str_of e1 rid e2 max_reviews]
    by blast
qed

lemmas fetch_reviews_eval_defs = fetch_reviews_def select_review_identifier_def
  format_google_place_id_def resolve_data_id_via_maps_def reviews_request_def http_json_def
  pget_def pget_default_def dget_def dget_default_def py_or_def py_str_def py_slice_to_def
  slice_to_def py_iter_def review_snippet_def bnd_def strip_def is_space_def
  cafe_record_def anonymous_record_def serp_base_def

theorem fetch_reviews_bounded_best_effort_witness:
  "(0::int) \<le> 3 \<and>
   (\<exists>out. fetch_reviews (\<lambda>v. []) four_reviews serp_base cafe_record 3 = Inr out \<and>
          length out \<le> nat 3) \<and>
   fetch_reviews (\<lambda>v. []) reviews_of_strings serp_base cafe_record 3 = Inl AttributeError \<and>
   shape_error AttributeError \<and>
   \<not> truthy (dget anonymous_record ''google_place_id'') \<and>
   resolve_data_id_via_maps (\<lambda>v. []) always_timeout serp_base anonymous_record = Inr PNone \<and>
   fetch_reviews (\<lambda>v. []) always_timeout serp_base anonymous_record 3 = Inr [] \<and>
   truthy (dget cafe_record ''google_place_id'') \<and>
   http_json (maps_only (reviews_request serp_base
      (select_review_identifier (\<lambda>v. []) cafe_record))) = Inl (HTTPError 500) \<and>
   resolve_data_id_via_maps (\<lambda>v. []) maps_only serp_base cafe_record = Inr (PStr ''0x9b'') \<and>
   http_json (maps_only (reviews_request serp_base
      (format_google_place_id (\<lambda>v. []) (PStr ''0x9b'')))) = Inl (HTTPError 500) \<and>
   fetch_reviews (\<lambda>v. []) maps_only serp_base cafe_record 3 = Inr [] \<and>
   (\<forall>p. \<exists>e. http_json (always_timeout p) = Inl e) \<and>
   fetch_reviews (\<lambda>v. []) always_timeout serp_base cafe_record 3 = Inr []"
proof -
  note main = fetch_reviews_bounded_best_effort
  have r4: "\<exists>out. fetch_reviews (\<lambda>v. []) four_reviews serp_base cafe_record 3 = Inr out"
    by (simp add: fetch_reviews_eval_defs four_reviews_def Let_def)
  then obtain out where o: "fetch_reviews (\<lambda>v. []) four_reviews serp_base cafe_record 3 = Inr out"
    by blast
  have b: "length out \<le> nat 3"
    using main [of 3 "\<lambda>v. []" four_reviews serp_base cafe_record out] o by simp
  have s: "fetch_reviews (\<lambda>v. []) reviews_of_strings serp_base cafe_record 3 = Inl AttributeError"
    by (simp add: fetch_reviews_eval_defs reviews_of_strings_def Let_def)
  have se: "shape_error AttributeError"
    using main [of 3 "\<lambda>v. []" reviews_of_strings serp_base cafe_record _ AttributeError] s
    by blast
  have t: "\<forall>p. \<exists>e. http_json (always_timeout p) = Inl e"
    by (simp add: always_timeout_def http_json_def)
  have e1: "fetch_reviews (\<lambda>v. []) always_timeout serp_base cafe_record 3 = Inr []"
    using main [of 3 "\<lambda>v. []" always_timeout serp_base cafe_record] t by blast
  have n: "\<not> truthy (dget anonymous_record ''google_place_id'')"
    by (simp add: anonymous_record_def dget_def)
  have rs: "resolve_data_id_via_maps (\<lambda>v. []) always_timeout serp_base anonymous_record = Inr PNone"
    using t by (rule resolve_all_calls_fail)
  have e2: "fetch_reviews (\<lambda>v. []) always_timeout serp_base anonymous_record 3 = Inr []"
    using main [of 3 "\<lambda>v. []" always_timeout serp_base anonymous_record] n rs by blast
  have g: "truthy (dget cafe_record ''google_place_id'')"
    by (simp add: cafe_record_def dget_def)
  have f1: "http_json (maps_only (reviews_request serp_base
      (select_review_identifier (\<lambda>v. []) cafe_record))) = Inl (HTTPError 500)"
    by (simp add: fetch_reviews_eval_defs maps_only_def Let_def)
  have rm: "resolve_data_id_via_maps (\<lambda>v. []) maps_only serp_base cafe_record = Inr (PStr ''0x9b'')"
    by (simp add: fetch_reviews_eval_defs maps_only_def Let_def)
  have f2: "http_json (maps_only (reviews_request serp_base
      (format_google_place_id (\<lambda>v. []) (PStr ''0x9b'')))) = Inl (HTTPError 500)"
    by (simp add: fetch_reviews_eval_defs maps_only_def Let_def)
  have e3: "fetch_reviews (\<lambda>v. []) maps_only serp_base cafe_record 3 = Inr []"
    using main [of 3 "\<lambda>v. []" maps_only serp_base cafe_record _ _ "HTTPError 500"
                 "PStr ''0x9b''" "HTTPError 500"] g f1 rm f2
    by simp
  show ?thesis using o b s se n rs e2 g f1 rm f2 e3 t e1 by auto
qed

text \<open>
  Claim C9 as stated fails: the review endpoint answers 200 with a \<^verbatim>\<open>reviews\<close> list
  whose item is a string, and \<^verbatim>\<open>fetch_reviews\<close> raises \<^verbatim>\<open>AttributeError\<close> in its final
  loop, which no handler covers.
\<close>

theorem fetch_reviews_raises_on_string_review:
  "fetch_reviews (\<lambda>v. []) reviews_of_strings serp_base cafe_record 3 = Inl AttributeError"
  by (simp add: fetch_reviews_eval_defs reviews_of_strings_def Let_def)


end
